theory Spec2Isabelle
  imports Main
begin

section \<open>Data model\<close>

text \<open>
  The worksheet REST helpers of \<^verbatim>\<open>codalab/rest/worksheets.py\<close> work on the model object
  \<^verbatim>\<open>local.model\<close> (the worksheet store), on \<^verbatim>\<open>request.user\<close> and on a few library helpers
  (\<^verbatim>\<open>canonicalize\<close>, \<^verbatim>\<open>spec_util\<close>, \<^verbatim>\<open>worksheet_util\<close>, \<^verbatim>\<open>codalab.objects.permission\<close>).
  Only \<^verbatim>\<open>worksheets.py\<close> is available as source; the collaborators are modelled from the
  specification and marked as such. Exceptions are values of type \<open>error\<close>; a handler
  returns its result together with the store it leaves behind, because a raised exception
  does not undo the store calls made before it.
\<close>

type_synonym uuid = string
type_synonym user_id = string
type_synonym timestamp = nat

text \<open>Modelled from the spec: the exception classes \<^verbatim>\<open>PermissionError\<close>, \<^verbatim>\<open>UsageError\<close> and
  \<^verbatim>\<open>NotFoundError\<close> that worksheets.py imports from \<^verbatim>\<open>codalab.common\<close> are not under src/.
  Section 7: NotFound, PermissionDenied, and the usage errors (precondition failed, version
  conflict, validation), each with its message. The other three are the errors Python
  itself raises: \<^verbatim>\<open>AttributeError\<close> when an attribute of \<^verbatim>\<open>None\<close> is read, \<^verbatim>\<open>KeyError\<close> for a
  key a dict does not have, \<^verbatim>\<open>TypeError\<close> for a value of the wrong form.\<close>

datatype error =
    PermissionError string
  | UsageError string
  | NotFoundError string
  | AttributeError string
  | KeyError string
  | TypeError string

text \<open>Modelled from the spec: the class hierarchy of \<^verbatim>\<open>codalab.common\<close> is not under src/.
  Which exceptions an \<^verbatim>\<open>except UsageError\<close> clause catches: \<^verbatim>\<open>convert_items_from_db\<close> wraps
  \<^verbatim>\<open>get_worksheet\<close> in such a clause to survive a sub-worksheet that does not exist, so
  \<^verbatim>\<open>NotFoundError\<close> is a \<^verbatim>\<open>UsageError\<close>. \<^verbatim>\<open>PermissionError\<close> is taken to be one as well; neither
  \<^verbatim>\<open>except UsageError\<close> clause of worksheets.py encloses a call that raises it.\<close>

fun is_UsageError :: "error \<Rightarrow> bool" where
  "is_UsageError (UsageError _) = True"
| "is_UsageError (NotFoundError _) = True"
| "is_UsageError (PermissionError _) = True"
| "is_UsageError (AttributeError _) = False"
| "is_UsageError (KeyError _) = False"
| "is_UsageError (TypeError _) = False"

fun is_NotFoundError :: "error \<Rightarrow> bool" where
  "is_NotFoundError (NotFoundError _) = True"
| "is_NotFoundError _ = False"

text \<open>Modelled from the spec: \<^verbatim>\<open>codalab.model.tables\<close> is not under src/. Section 3:
  permission levels are \<open>None < Read < All\<close>, totally ordered; \<^verbatim>\<open>GROUP_OBJECT_PERMISSION_READ\<close>
  is the middle one.\<close>

datatype permission =
    GROUP_OBJECT_PERMISSION_NONE
  | GROUP_OBJECT_PERMISSION_READ
  | GROUP_OBJECT_PERMISSION_ALL

fun permission_rank :: "permission \<Rightarrow> nat" where
  "permission_rank GROUP_OBJECT_PERMISSION_NONE = 0"
| "permission_rank GROUP_OBJECT_PERMISSION_READ = 1"
| "permission_rank GROUP_OBJECT_PERMISSION_ALL = 2"

definition permission_max :: "permission \<Rightarrow> permission \<Rightarrow> permission" where
  "permission_max p q = (if permission_rank p \<le> permission_rank q then q else p)"

text \<open>Modelled from the spec: the \<^verbatim>\<open>TYPE_\<close> constants of \<^verbatim>\<open>worksheet_util\<close> are not under
  src/. Section 3: an item is markup text, a directive, a bundle reference or a
  sub-worksheet reference.\<close>

datatype item_type = TYPE_MARKUP | TYPE_DIRECTIVE | TYPE_BUNDLE | TYPE_WORKSHEET

text \<open>The stored form of an item: \<^verbatim>\<open>(bundle_uuid, subworksheet_uuid, value, type)\<close>.\<close>

type_synonym item_tuple = "uuid option \<times> uuid option \<times> string \<times> item_type"

text \<open>An item as a dict, the form \<^verbatim>\<open>WorksheetItemSchema\<close> loads and \<^verbatim>\<open>to_dict\<close> returns, with
  the keys worksheets.py reads.\<close>

record item =
  worksheet_uuid :: uuid
  bundle_uuid :: "uuid option"
  subworksheet_uuid :: "uuid option"
  item_value :: string
  item_type :: item_type

text \<open>Modelled from the spec: \<^verbatim>\<open>Worksheet.Item.as_tuple\<close> (codalab.objects.worksheet) is not
  under src/. Section 4.3: the stored tuple of an item, \<open>(bundleId|null,
  subWorksheetId|null, value, type)\<close>.\<close>

definition as_tuple :: "item \<Rightarrow> item_tuple" where
  "as_tuple i = (bundle_uuid i, subworksheet_uuid i, item_value i, item_type i)"

text \<open>Modelled from the spec: the classes of \<^verbatim>\<open>codalab.objects\<close> are not under src/. A user has
  the three attributes worksheets.py reads; a bundle info has its uuid and its owner; a
  worksheet has the fields of section 3, with \<open>last_item_id\<close> and the number of items as
  its version token.\<close>

record user =
  user_id :: user_id
  user_name :: string
  is_authenticated :: bool

record bundle_info =
  b_uuid :: uuid
  b_owner_id :: user_id

record worksheet =
  uuid :: uuid
  name :: string
  owner_id :: user_id
  title :: "string option"
  frozen :: "timestamp option"
  tags :: "string list"
  items :: "item_tuple list"
  last_item_id :: nat

text \<open>The dict \<^verbatim>\<open>update_worksheet_metadata\<close> builds: a key that is absent is \<open>None\<close>.\<close>

record metadata =
  md_owner_id :: "user_id option"
  md_name :: "string option"
  md_title :: "string option option"
  md_tags :: "string list option"
  md_frozen :: "timestamp option"

definition empty_metadata :: metadata where
  "empty_metadata = \<lparr>md_owner_id = None, md_name = None, md_title = None, md_tags = None,
     md_frozen = None\<rparr>"

text \<open>The mutating calls a handler makes on the store, in the order it makes them. The
  journal is a ghost field of the store: it lets a statement say how often and in which
  order the store was written, which the stored data alone does not show.\<close>

datatype store_call =
    NewWorksheet uuid string
  | ReplaceItems uuid nat nat "item_tuple list"
  | AppendItem uuid item_tuple
  | UpdateMetadata uuid metadata
  | SetGroupPermission uuid uuid permission
  | DeleteWorksheet uuid

text \<open>Modelled from the spec: the state behind \<^verbatim>\<open>local.model\<close> (codalab.model) is not under
  src/. Sections 3, 4.1 and 6: the worksheets, the bundle directory, the user directory,
  the group memberships, the ACL rows keyed by group and worksheet, and the distinguished
  public group.\<close>

record model =
  worksheets :: "worksheet list"
  bundles :: "bundle_info list"
  users :: "user list"
  memberships :: "(user_id \<times> uuid) list"
  group_permissions :: "((uuid \<times> uuid) \<times> permission) list"
  public_group_uuid :: uuid
  journal :: "store_call list"

section \<open>The worksheet store\<close>

text \<open>Modelled from the spec: \<^verbatim>\<open>local.model\<close> (codalab.model) is not under src/. Section 4.2,
  \<open>get(id, withItems) -> Worksheet | NotFound\<close>.\<close>

definition get_worksheet :: "model \<Rightarrow> uuid \<Rightarrow> bool \<Rightarrow> error + worksheet" where
  "get_worksheet s u fetch_items =
     (case find (\<lambda>w. uuid w = u) (worksheets s) of
        None \<Rightarrow> Inl (NotFoundError (''No worksheet with uuid '' @ u))
      | Some w \<Rightarrow> Inr (if fetch_items then w else w\<lparr>items := []\<rparr>))"


text \<open>Modelled from the spec: section 4.2, \<open>create(worksheet) -> id\<close>, which fails if the name
  is already taken. The new worksheet is stored under the uuid it was built with.\<close>

definition model_new_worksheet :: "worksheet \<Rightarrow> model \<Rightarrow> (error + unit) \<times> model" where
  "model_new_worksheet w s =
     (let s1 = s\<lparr>journal := journal s @ [NewWorksheet (uuid w) (name w)]\<rparr> in
      if name w \<in> set (map name (worksheets s))
      then (Inl (UsageError (''Worksheet with name '' @ name w @ '' already exists'')), s1)
      else (Inr (), s1\<lparr>worksheets := worksheets s @ [w]\<rparr>))"

text \<open>Modelled from the spec: section 4.2, \<open>replaceItems(id, expectedLastItemId,
  expectedLength, newItems) -> ok | VersionConflict\<close>: when the token of the stored worksheet
  is the expected one the items are replaced wholesale and the token advances; otherwise
  nothing changes and the conflict is raised (a \<^verbatim>\<open>UsageError\<close>, which is what the caller's
  handler catches).\<close>

definition model_update_worksheet_items ::
  "uuid \<Rightarrow> nat \<Rightarrow> nat \<Rightarrow> item_tuple list \<Rightarrow> model \<Rightarrow> (error + unit) \<times> model" where
  "model_update_worksheet_items u expected_last_item_id expected_length new_items s =
     (let s1 = s\<lparr>journal := journal s @
                 [ReplaceItems u expected_last_item_id expected_length new_items]\<rparr> in
      case find (\<lambda>w. uuid w = u) (worksheets s) of
        None \<Rightarrow> (Inl (UsageError ''Rows have been updated since the worksheet was read''), s1)
      | Some w \<Rightarrow>
          if last_item_id w = expected_last_item_id \<and> length (items w) = expected_length
          then (Inr (), s1\<lparr>worksheets :=
                  map (\<lambda>x. if uuid x = u
                            then x\<lparr>items := new_items, last_item_id := Suc (last_item_id x)\<rparr>
                            else x) (worksheets s)\<rparr>)
          else (Inl (UsageError ''Rows have been updated since the worksheet was read''), s1))"

text \<open>Modelled from the spec: section 4.2, \<open>appendItem(id, item) -> ok\<close>: a single item is
  appended and the token advances; no token is supplied by the caller.\<close>

definition model_add_worksheet_item :: "uuid \<Rightarrow> item_tuple \<Rightarrow> model \<Rightarrow> model" where
  "model_add_worksheet_item u i s =
     s\<lparr>journal := journal s @ [AppendItem u i],
       worksheets :=
         map (\<lambda>x. if uuid x = u
                   then x\<lparr>items := items x @ [i], last_item_id := Suc (last_item_id x)\<rparr>
                   else x) (worksheets s)\<rparr>"

text \<open>Modelled from the spec: section 4.2, \<open>updateMetadata(id, fields)\<close>, a keyed mutation:
  each key present in the dict overwrites that field of the worksheet, the others stay.\<close>

definition apply_metadata :: "metadata \<Rightarrow> worksheet \<Rightarrow> worksheet" where
  "apply_metadata m w =
     w\<lparr>owner_id := (case md_owner_id m of None \<Rightarrow> owner_id w | Some v \<Rightarrow> v),
       name := (case md_name m of None \<Rightarrow> name w | Some v \<Rightarrow> v),
       title := (case md_title m of None \<Rightarrow> title w | Some v \<Rightarrow> v),
       tags := (case md_tags m of None \<Rightarrow> tags w | Some v \<Rightarrow> v),
       frozen := (case md_frozen m of None \<Rightarrow> frozen w | Some t \<Rightarrow> Some t)\<rparr>"

text \<open>Modelled from the spec: section 4.2, \<open>updateMetadata(id, fields)\<close> on the worksheet
  with the uuid of the object it is handed.\<close>

definition model_update_worksheet_metadata :: "worksheet \<Rightarrow> metadata \<Rightarrow> model \<Rightarrow> model" where
  "model_update_worksheet_metadata w m s =
     s\<lparr>journal := journal s @ [UpdateMetadata (uuid w) m],
       worksheets :=
         map (\<lambda>x. if uuid x = uuid w then apply_metadata m x else x) (worksheets s)\<rparr>"

text \<open>Modelled from the spec: section 4.2, \<open>setGroupPermission(groupId, worksheetId, level)\<close>,
  a keyed mutation of the ACL.\<close>

definition model_set_group_worksheet_permission ::
  "uuid \<Rightarrow> uuid \<Rightarrow> permission \<Rightarrow> model \<Rightarrow> model" where
  "model_set_group_worksheet_permission g u p s =
     s\<lparr>journal := journal s @ [SetGroupPermission g u p],
       group_permissions :=
         ((g, u), p) # filter (\<lambda>e. fst e \<noteq> (g, u)) (group_permissions s)\<rparr>"

text \<open>Modelled from the spec: section 4.2, \<open>delete(id)\<close>.\<close>

definition model_delete_worksheet :: "uuid \<Rightarrow> model \<Rightarrow> model" where
  "model_delete_worksheet u s =
     s\<lparr>journal := journal s @ [DeleteWorksheet u],
       worksheets := filter (\<lambda>w. uuid w \<noteq> u) (worksheets s),
       group_permissions := filter (\<lambda>e. snd (fst e) \<noteq> u) (group_permissions s)\<rparr>"

text \<open>Modelled from the spec: section 4.2, \<open>getGroupPermissions\<close>: the ACL rows of a
  worksheet.\<close>

definition get_group_worksheet_permissions :: "model \<Rightarrow> uuid \<Rightarrow> (uuid \<times> permission) list" where
  "get_group_worksheet_permissions s u =
     map (\<lambda>e. (fst (fst e), snd e)) (filter (\<lambda>e. snd (fst e) = u) (group_permissions s))"

text \<open>Modelled from the spec: section 6, the user directory, \<open>getUser(id)\<close>; a user that
  does not exist is a NotFound (section 7).\<close>

definition get_user :: "model \<Rightarrow> user_id \<Rightarrow> error + user" where
  "get_user s i =
     (case find (\<lambda>x. user_id x = i) (users s) of
        None \<Rightarrow> Inl (NotFoundError (''No user with id '' @ i))
      | Some x \<Rightarrow> Inr x)"


text \<open>Modelled from the spec: section 6, the user directory, \<open>findUserByName(name)\<close>; the
  legacy owner spec may also be the id.\<close>

definition find_user :: "model \<Rightarrow> string \<Rightarrow> error + user" where
  "find_user s spec =
     (case find (\<lambda>x. user_name x = spec \<or> user_id x = spec) (users s) of
        None \<Rightarrow> Inl (NotFoundError (''No user matching '' @ spec))
      | Some x \<Rightarrow> Inr x)"

text \<open>Modelled from the spec: section 6, the bundle directory, \<open>batchGetBundleInfo(ids) ->
  mapping id -> info\<close> (\<^verbatim>\<open>get_bundle_infos\<close> of codalab.rest.util is not under src/). A bundle
  that was deleted has no entry in the mapping: \<^verbatim>\<open>convert_items_from_db\<close> reads the mapping
  with a default for that case.\<close>

definition get_bundle_infos :: "model \<Rightarrow> uuid list \<Rightarrow> (uuid \<times> bundle_info) list" where
  "get_bundle_infos s us =
     map (\<lambda>b. (b_uuid b, b)) (filter (\<lambda>b. b_uuid b \<in> set us) (bundles s))"

section \<open>The permission oracle\<close>

text \<open>Modelled from the spec: codalab.objects.permission is not under src/. Section 4.1:
  the owner always gets All; otherwise the maximum level across the groups the user
  belongs to that have an ACL entry on the worksheet, where the entry of the public group
  applies to every user, the anonymous one included.\<close>

definition group_permission :: "model \<Rightarrow> uuid \<Rightarrow> uuid \<Rightarrow> permission" where
  "group_permission s g u =
     (case map_of (group_permissions s) (g, u) of
        None \<Rightarrow> GROUP_OBJECT_PERMISSION_NONE
      | Some p \<Rightarrow> p)"

text \<open>Modelled from the spec: section 4.1, the groups whose ACL entries apply to a user: the
  public group for everyone, and the groups the user belongs to.\<close>

definition groups_of :: "model \<Rightarrow> user option \<Rightarrow> uuid list" where
  "groups_of s u =
     public_group_uuid s #
       (case u of
          None \<Rightarrow> []
        | Some x \<Rightarrow> map snd (filter (\<lambda>m. fst m = user_id x) (memberships s)))"

text \<open>Modelled from the spec: section 4.1, \<open>permissionLevel(user, worksheet)\<close>.\<close>

definition permissionLevel :: "model \<Rightarrow> user option \<Rightarrow> worksheet \<Rightarrow> permission" where
  "permissionLevel s u w =
     (if (case u of None \<Rightarrow> False | Some x \<Rightarrow> user_id x = owner_id w)
      then GROUP_OBJECT_PERMISSION_ALL
      else fold permission_max (map (\<lambda>g. group_permission s g (uuid w)) (groups_of s u))
             GROUP_OBJECT_PERMISSION_NONE)"

text \<open>Modelled from the spec: \<^verbatim>\<open>str(worksheet)\<close> (codalab.objects.worksheet) is not under src/.
  Section 4.5 wants the error to name the worksheet: its name and its uuid.\<close>

definition worksheet_str :: "worksheet \<Rightarrow> string" where
  "worksheet_str w = name w @ ''('' @ uuid w @ '')''"

text \<open>Modelled from the spec: section 4.1, \<open>requireRead\<close>, a gate that fails with
  PermissionDenied when the level is below Read.\<close>

definition check_worksheet_has_read_permission ::
  "model \<Rightarrow> user option \<Rightarrow> worksheet \<Rightarrow> error + unit" where
  "check_worksheet_has_read_permission s u w =
     (if 1 \<le> permission_rank (permissionLevel s u w) then Inr ()
      else Inl (PermissionError (''read permission required on '' @ worksheet_str w)))"

text \<open>Modelled from the spec: section 4.1, \<open>requireAll\<close>, a gate that fails with
  PermissionDenied when the level is not All.\<close>

definition check_worksheet_has_all_permission ::
  "model \<Rightarrow> user option \<Rightarrow> worksheet \<Rightarrow> error + unit" where
  "check_worksheet_has_all_permission s u w =
     (if permissionLevel s u w = GROUP_OBJECT_PERMISSION_ALL then Inr ()
      else Inl (PermissionError (''all permission required on '' @ worksheet_str w)))"

text \<open>Modelled from the spec: \<^verbatim>\<open>worksheet_util.check_worksheet_not_frozen\<close> is not under
  src/. Section 4.5 \<open>requireNotFrozen\<close>; section 7 makes the frozen-worksheet mutation
  attempt a precondition failure.\<close>

definition check_worksheet_not_frozen :: "worksheet \<Rightarrow> error + unit" where
  "check_worksheet_not_frozen w =
     (case frozen w of
        None \<Rightarrow> Inr ()
      | Some t \<Rightarrow> Inl (UsageError (''Cannot mutate frozen worksheet '' @ worksheet_str w)))"

section \<open>What a handler reads from outside the store\<close>

text \<open>A full info dict or the stub \<^verbatim>\<open>{'uuid': u}\<close> that stands for a dangling reference.\<close>

datatype 'a info = Info 'a | Stub uuid

text \<open>The value of an item once read: the raw string, or the tokens of a directive.\<close>

datatype value_obj = Raw string | Tokens "string list"

text \<open>The info dict of a worksheet, without its \<^verbatim>\<open>'items'\<close> entry, which is kept beside it.
  The last three keys are present only once \<^verbatim>\<open>get_worksheet_info\<close> has added them.\<close>

record worksheet_info =
  info_uuid :: uuid
  info_name :: string
  info_owner_id :: user_id
  info_title :: "string option"
  info_frozen :: "timestamp option"
  info_tags :: "string list"
  info_last_item_id :: nat
  info_owner_name :: "string option"
  info_group_permissions :: "(uuid \<times> permission) list option"
  info_permission :: "permission option"

text \<open>The expanded tuple \<^verbatim>\<open>(bundle_info, subworksheet_info, value_obj, type)\<close> that
  \<^verbatim>\<open>convert_items_from_db\<close> returns for an item.\<close>

type_synonym info_item =
  "bundle_info info option \<times> worksheet_info info option \<times> value_obj \<times> item_type"

text \<open>The \<^verbatim>\<open>'items'\<close> entry of a worksheet info dict: dicts (\<^verbatim>\<open>to_dict()\<close>), stored tuples
  (\<^verbatim>\<open>to_dict(legacy=True)\<close>), or expanded tuples; \<^verbatim>\<open>len\<close> works on each.\<close>

datatype info_items =
    Items "item list"
  | TupleItems "item_tuple list"
  | LegacyItems "info_item list"

fun len_items :: "info_items \<Rightarrow> nat" where
  "len_items (Items xs) = length xs"
| "len_items (TupleItems xs) = length xs"
| "len_items (LegacyItems xs) = length xs"

text \<open>The form in which \<^verbatim>\<open>update_worksheet_items\<close> is handed its \<^verbatim>\<open>new_items\<close>: expanded
  tuples to be converted (\<^verbatim>\<open>convert_items=True\<close>, the default) or stored tuples
  (\<^verbatim>\<open>convert_items=False\<close>).\<close>

datatype new_items = Convert "info_item list" | Stored "item_tuple list"

text \<open>A value a client may send for a key of the metadata update, with Python's
  truthiness.\<close>

datatype pyvalue = PyNone | PyBool bool | PyStr string | PyTime timestamp

fun truthy :: "pyvalue \<Rightarrow> bool" where
  "truthy PyNone = False"
| "truthy (PyBool b) = b"
| "truthy (PyStr s) = (s \<noteq> [])"
| "truthy (PyTime t) = True"

text \<open>One \<^verbatim>\<open>(key, value)\<close> pair of the \<^verbatim>\<open>info\<close> dict of \<^verbatim>\<open>update_worksheet_metadata\<close>; the
  constructor is the key. \<open>Other\<close> is any key the function has no branch for (\<^verbatim>\<open>'uuid'\<close>).\<close>

datatype info_entry =
    Owner_id user_id
  | Owner_spec string
  | Name string
  | Title "string option"
  | Tags "string list"
  | Freeze pyvalue
  | Frozen pyvalue
  | Other string pyvalue

text \<open>The request and the library values the handlers read. \<^verbatim>\<open>request.user\<close> may be
  \<^verbatim>\<open>None\<close>. The constants and helpers of \<^verbatim>\<open>spec_util\<close>, \<^verbatim>\<open>canonicalize\<close>, \<^verbatim>\<open>formatting\<close> and
  \<^verbatim>\<open>worksheet_util\<close> are not under src/ and are taken as parameters: \<open>new_uuid\<close> is the uuid
  the \<^verbatim>\<open>Worksheet\<close> constructor draws, \<open>now\<close> is \<^verbatim>\<open>datetime.datetime.now()\<close>,
  \<open>parse_worksheet_form\<close> reads and parses the packaged \<^verbatim>\<open>.ws\<close> file of the given name,
  \<open>iteritems\<close> is the order in which Python walks a dict.\<close>

record env =
  request_user :: "user option"
  now :: timestamp
  new_uuid :: uuid
  HOME_WORKSHEET :: string
  home_worksheet :: "string \<Rightarrow> string"
  is_home_worksheet :: "string \<Rightarrow> bool"
  is_dashboard :: "string \<Rightarrow> bool"
  is_public_home :: "string \<Rightarrow> bool"
  string_to_tokens :: "string \<Rightarrow> string list"
  convert_item_to_db :: "info_item \<Rightarrow> error + item_tuple"
  parse_worksheet_form :: "string \<Rightarrow> model \<Rightarrow> uuid \<Rightarrow> error + info_item list"
  iteritems :: "(uuid \<times> item list) list \<Rightarrow> (uuid \<times> item list) list"

text \<open>Modelled from the spec: \<^verbatim>\<open>Worksheet.to_dict\<close> (codalab.objects.worksheet) is not under
  src/. Section 3: the fields of the worksheet, here without the items.\<close>

definition to_dict :: "worksheet \<Rightarrow> worksheet_info" where
  "to_dict w =
     \<lparr>info_uuid = uuid w, info_name = name w, info_owner_id = owner_id w,
      info_title = title w, info_frozen = frozen w, info_tags = tags w,
      info_last_item_id = last_item_id w, info_owner_name = None,
      info_group_permissions = None, info_permission = None\<rparr>"

text \<open>Modelled from the spec: the items of \<^verbatim>\<open>Worksheet.to_dict\<close>, each stored tuple as a dict
  that also names its worksheet.\<close>

definition item_dicts :: "worksheet \<Rightarrow> item list" where
  "item_dicts w =
     map (\<lambda>(b, sw, v, t).
            \<lparr>worksheet_uuid = uuid w, bundle_uuid = b, subworksheet_uuid = sw,
             item_value = v, item_type = t\<rparr>) (items w)"

text \<open>Modelled from the spec: the \<^verbatim>\<open>'items'\<close> entry of \<^verbatim>\<open>Worksheet.to_dict\<close>, dicts, or the
  stored tuples when \<^verbatim>\<open>legacy\<close>.\<close>

definition to_dict_items :: "worksheet \<Rightarrow> bool \<Rightarrow> info_items" where
  "to_dict_items w legacy = (if legacy then TupleItems (items w) else Items (item_dicts w))"

text \<open>Modelled from the spec: \<^verbatim>\<open>canonicalize.get_worksheet_uuid\<close> is not under src/. Section
  4.4, step 1: a spec that names an existing worksheet by its exact name resolves to that
  worksheet's id, anything else is NotFound. The empty spec and the home token stand for
  the caller's home worksheet, the part \<^verbatim>\<open>get_worksheet_uuid_or_create\<close> says it duplicates.\<close>

definition get_worksheet_uuid ::
  "env \<Rightarrow> model \<Rightarrow> user option \<Rightarrow> uuid option \<Rightarrow> string \<Rightarrow> error + uuid" where
  "get_worksheet_uuid env s usr base_worksheet_uuid worksheet_spec =
     (let spec =
        (case usr of
           None \<Rightarrow> worksheet_spec
         | Some x \<Rightarrow>
             if worksheet_spec = [] \<or> worksheet_spec = HOME_WORKSHEET env
             then home_worksheet env (user_name x) else worksheet_spec) in
      case find (\<lambda>w. name w = spec) (worksheets s) of
        None \<Rightarrow> Inl (NotFoundError (''No worksheet found with name '' @ spec))
      | Some w \<Rightarrow> Inr (uuid w))"

section \<open>The helper functions of worksheets.py\<close>

subsection \<open>Reading\<close>

text \<open>\<^verbatim>\<open>convert_items_from_db\<close>, one item of its loop. A uuid that is \<^verbatim>\<open>None\<close> or empty is
  falsy and gives \<^verbatim>\<open>None\<close>; a bundle missing from \<^verbatim>\<open>bundle_dict\<close> and a sub-worksheet whose
  lookup raises a \<^verbatim>\<open>UsageError\<close> give the stub.\<close>

fun convert_item_from_db ::
  "env \<Rightarrow> model \<Rightarrow> (uuid \<times> bundle_info) list \<Rightarrow> item_tuple \<Rightarrow> error + info_item" where
  "convert_item_from_db env s bundle_dict (bundle_uuid0, subworksheet_uuid0, val, type) =
     (let bundle_info =
            (case bundle_uuid0 of
               None \<Rightarrow> None
             | Some b \<Rightarrow>
                 if b = [] then None
                 else Some (case map_of bundle_dict b of None \<Rightarrow> Stub b | Some i \<Rightarrow> Info i));
          value_obj = (if type = TYPE_DIRECTIVE then Tokens (string_to_tokens env val)
                       else Raw val)
      in (case subworksheet_uuid0 of
            None \<Rightarrow> Inr (bundle_info, None, value_obj, type)
          | Some sw \<Rightarrow>
              if sw = [] then Inr (bundle_info, None, value_obj, type)
              else (case get_worksheet s sw False of
                      Inr w \<Rightarrow> Inr (bundle_info, Some (Info (to_dict w)), value_obj, type)
                    | Inl e \<Rightarrow>
                        if is_UsageError e
                        then Inr (bundle_info, Some (Stub sw), value_obj, type)
                        else Inl e)))"

text \<open>A list comprehension or loop whose body may raise: the first error ends it.\<close>

fun map_result :: "('a \<Rightarrow> error + 'b) \<Rightarrow> 'a list \<Rightarrow> error + 'b list" where
  "map_result f [] = Inr []"
| "map_result f (x # xs) =
     (case f x of
        Inl e \<Rightarrow> Inl e
      | Inr y \<Rightarrow> (case map_result f xs of Inl e \<Rightarrow> Inl e | Inr ys \<Rightarrow> Inr (y # ys)))"

definition convert_items_from_db :: "env \<Rightarrow> model \<Rightarrow> item_tuple list \<Rightarrow> error + info_item list" where
  "convert_items_from_db env s its =
     (let bundle_uuids = remdups (List.map_filter fst its);
          bundle_dict = get_bundle_infos s bundle_uuids
      in map_result (convert_item_from_db env s bundle_dict) its)"

definition get_worksheet_info ::
  "env \<Rightarrow> model \<Rightarrow> uuid \<Rightarrow> bool \<Rightarrow> bool \<Rightarrow> bool \<Rightarrow> error + worksheet_info \<times> info_items" where
  "get_worksheet_info env s u fetch_items fetch_permission legacy =
     (case get_worksheet s u fetch_items of
        Inl e \<Rightarrow> Inl e
      | Inr worksheet \<Rightarrow>
     (case check_worksheet_has_read_permission s (request_user env) worksheet of
        Inl e \<Rightarrow> Inl e
      | Inr _ \<Rightarrow>
     (case (if legacy
            then (case (if fetch_items
                        then (case convert_items_from_db env s (items worksheet) of
                                Inl e \<Rightarrow> Inl e
                              | Inr xs \<Rightarrow> Inr (LegacyItems xs))
                        else Inr (to_dict_items worksheet True)) of
                    Inl e \<Rightarrow> Inl e
                  | Inr its \<Rightarrow>
                      (case get_user s (owner_id worksheet) of
                         Inl e \<Rightarrow> Inl e
                       | Inr owner \<Rightarrow>
                           Inr ((to_dict worksheet)\<lparr>info_owner_name := Some (user_name owner)\<rparr>,
                                its)))
            else Inr (to_dict worksheet, to_dict_items worksheet False)) of
        Inl e \<Rightarrow> Inl e
      | Inr (result, its) \<Rightarrow>
          if fetch_permission
          then (case request_user env of
                  None \<Rightarrow> Inl (AttributeError ''user_id'')
                | Some usr \<Rightarrow>
                    Inr (result\<lparr>info_group_permissions :=
                                  Some (get_group_worksheet_permissions s (uuid worksheet)),
                                info_permission :=
                                  Some (permissionLevel s (Some usr) worksheet)\<rparr>, its))
          else Inr (result, its))))"







subsection \<open>Writing\<close>

definition concurrently :: "worksheet \<Rightarrow> error" where
  "concurrently w = UsageError (worksheet_str w @ '' was updated concurrently!'')"

text \<open>The first statement of the \<^verbatim>\<open>try\<close> block of \<^verbatim>\<open>update_worksheet_items\<close>: with
  \<^verbatim>\<open>convert_items\<close> every item goes through \<^verbatim>\<open>worksheet_util.convert_item_to_db\<close>.\<close>

definition items_to_db :: "env \<Rightarrow> new_items \<Rightarrow> error + item_tuple list" where
  "items_to_db env new_items =
     (case new_items of
        Convert xs \<Rightarrow> map_result (convert_item_to_db env) xs
      | Stored ts \<Rightarrow> Inr ts)"

definition update_worksheet_items ::
  "env \<Rightarrow> worksheet_info \<times> info_items \<Rightarrow> new_items \<Rightarrow> model \<Rightarrow> (error + unit) \<times> model" where
  "update_worksheet_items env worksheet_info new_items s =
     (let worksheet_uuid0 = info_uuid (fst worksheet_info);
          last_item_id0 = info_last_item_id (fst worksheet_info);
          length0 = len_items (snd worksheet_info)
      in
      (case get_worksheet s worksheet_uuid0 False of
         Inl e \<Rightarrow> (Inl e, s)
       | Inr worksheet \<Rightarrow>
      (case check_worksheet_has_all_permission s (request_user env) worksheet of
         Inl e \<Rightarrow> (Inl e, s)
       | Inr _ \<Rightarrow>
      (case check_worksheet_not_frozen worksheet of
         Inl e \<Rightarrow> (Inl e, s)
       | Inr _ \<Rightarrow>
      (case items_to_db env new_items of
         Inl e \<Rightarrow> (Inl (if is_UsageError e then concurrently worksheet else e), s)
       | Inr db_items \<Rightarrow>
      (case model_update_worksheet_items worksheet_uuid0 last_item_id0 length0 db_items s of
         (Inl e, s1) \<Rightarrow> (Inl (if is_UsageError e then concurrently worksheet else e), s1)
       | (Inr _, s1) \<Rightarrow> (Inr (), s1)))))))"

definition ensure_unused_worksheet_name :: "env \<Rightarrow> model \<Rightarrow> string \<Rightarrow> error + unit" where
  "ensure_unused_worksheet_name env s nm =
     (case (if is_home_worksheet env nm
            then (case request_user env of
                    None \<Rightarrow> Inl (AttributeError ''user_name'')
                  | Some usr \<Rightarrow>
                      if home_worksheet env (user_name usr) \<noteq> nm
                      then Inl (UsageError (''Cannot create '' @ nm @
                             '' because this is potentially the home worksheet of another user''))
                      else Inr ())
            else Inr ()) of
        Inl e \<Rightarrow> Inl e
      | Inr _ \<Rightarrow>
          (case get_worksheet_uuid env s (request_user env) None nm of
             Inr _ \<Rightarrow> Inl (UsageError (''Worksheet with name '' @ nm @ '' already exists''))
           | Inl e \<Rightarrow> if is_NotFoundError e then Inr () else Inl e))"

text \<open>The loop of \<^verbatim>\<open>update_worksheet_metadata\<close> over \<^verbatim>\<open>info.items()\<close>: one entry.\<close>

fun metadata_entry ::
  "env \<Rightarrow> model \<Rightarrow> worksheet \<Rightarrow> info_entry \<Rightarrow> metadata \<Rightarrow> error + metadata" where
  "metadata_entry env s worksheet (Owner_id v) m = Inr (m\<lparr>md_owner_id := Some v\<rparr>)"
| "metadata_entry env s worksheet (Owner_spec v) m =
     (case find_user s v of
        Inl e \<Rightarrow> Inl e
      | Inr u \<Rightarrow> Inr (m\<lparr>md_owner_id := Some (user_id u)\<rparr>))"
| "metadata_entry env s worksheet (Name v) m =
     (case ensure_unused_worksheet_name env s v of
        Inl e \<Rightarrow> Inl e
      | Inr _ \<Rightarrow> Inr (m\<lparr>md_name := Some v\<rparr>))"
| "metadata_entry env s worksheet (Title v) m = Inr (m\<lparr>md_title := Some v\<rparr>)"
| "metadata_entry env s worksheet (Tags v) m = Inr (m\<lparr>md_tags := Some v\<rparr>)"
| "metadata_entry env s worksheet (Freeze v) m = Inr (m\<lparr>md_frozen := Some (now env)\<rparr>)"
| "metadata_entry env s worksheet (Frozen v) m =
     (if truthy v \<and> frozen worksheet = None then Inr (m\<lparr>md_frozen := Some (now env)\<rparr>)
      else Inr m)"
| "metadata_entry env s worksheet (Other k v) m = Inr m"

fun metadata_loop ::
  "env \<Rightarrow> model \<Rightarrow> worksheet \<Rightarrow> info_entry list \<Rightarrow> metadata \<Rightarrow> error + metadata" where
  "metadata_loop env s worksheet [] m = Inr m"
| "metadata_loop env s worksheet (x # xs) m =
     (case metadata_entry env s worksheet x m of
        Inl e \<Rightarrow> Inl e
      | Inr m1 \<Rightarrow> metadata_loop env s worksheet xs m1)"

definition update_worksheet_metadata ::
  "env \<Rightarrow> uuid \<Rightarrow> info_entry list \<Rightarrow> model \<Rightarrow> (error + unit) \<times> model" where
  "update_worksheet_metadata env u info s =
     (case get_worksheet s u False of
        Inl e \<Rightarrow> (Inl e, s)
      | Inr worksheet \<Rightarrow>
     (case check_worksheet_has_all_permission s (request_user env) worksheet of
        Inl e \<Rightarrow> (Inl e, s)
      | Inr _ \<Rightarrow>
     (case metadata_loop env s worksheet info empty_metadata of
        Inl e \<Rightarrow> (Inl e, s)
      | Inr m \<Rightarrow> (Inr (), model_update_worksheet_metadata worksheet m s))))"

definition set_worksheet_permission ::
  "env \<Rightarrow> worksheet \<Rightarrow> uuid \<Rightarrow> permission \<Rightarrow> model \<Rightarrow> (error + unit) \<times> model" where
  "set_worksheet_permission env worksheet group_uuid perm s =
     (case check_worksheet_has_all_permission s (request_user env) worksheet of
        Inl e \<Rightarrow> (Inl e, s)
      | Inr _ \<Rightarrow>
          (Inr (), model_set_group_worksheet_permission group_uuid (uuid worksheet) perm s))"

definition populate_worksheet ::
  "env \<Rightarrow> worksheet \<Rightarrow> string \<Rightarrow> string \<Rightarrow> model \<Rightarrow> (error + unit) \<times> model" where
  "populate_worksheet env worksheet nm ttl s =
     (case parse_worksheet_form env nm s (uuid worksheet) of
        Inl e \<Rightarrow> (Inl e, s)
      | Inr its \<Rightarrow>
     (case get_worksheet_info env s (uuid worksheet) True True False of
        Inl e \<Rightarrow> (Inl e, s)
      | Inr info \<Rightarrow>
     (case update_worksheet_items env info (Convert its) s of
        (Inl e, s1) \<Rightarrow> (Inl e, s1)
      | (Inr _, s1) \<Rightarrow> update_worksheet_metadata env (uuid worksheet) [Title (Some ttl)] s1)))"

definition new_worksheet :: "env \<Rightarrow> string \<Rightarrow> model \<Rightarrow> (error + uuid) \<times> model" where
  "new_worksheet env nm s =
     (case request_user env of
        None \<Rightarrow> (Inl (AttributeError ''is_authenticated''), s)
      | Some usr \<Rightarrow>
     if \<not> is_authenticated usr
     then (Inl (PermissionError ''You must be logged in to create a worksheet.''), s)
     else
     (case ensure_unused_worksheet_name env s nm of
        Inl e \<Rightarrow> (Inl e, s)
      | Inr _ \<Rightarrow>
     (let worksheet = \<lparr>uuid = new_uuid env, name = nm, owner_id = user_id usr, title = None,
                        frozen = None, tags = [], items = [], last_item_id = 0\<rparr>
      in
     (case model_new_worksheet worksheet s of
        (Inl e, s1) \<Rightarrow> (Inl e, s1)
      | (Inr _, s1) \<Rightarrow>
     (case set_worksheet_permission env worksheet (public_group_uuid s1)
             GROUP_OBJECT_PERMISSION_READ s1 of
        (Inl e, s2) \<Rightarrow> (Inl e, s2)
      | (Inr _, s2) \<Rightarrow>
     (case (if is_dashboard env nm
            then populate_worksheet env worksheet ''dashboard'' ''CodaLab Dashboard'' s2
            else (Inr (), s2)) of
        (Inl e, s3) \<Rightarrow> (Inl e, s3)
      | (Inr _, s3) \<Rightarrow>
     (case (if is_public_home env nm
            then populate_worksheet env worksheet ''home'' ''Public Home'' s3
            else (Inr (), s3)) of
        (Inl e, s4) \<Rightarrow> (Inl e, s4)
      | (Inr _, s4) \<Rightarrow> (Inr (uuid worksheet), s4))))))))"

text \<open>The \<^verbatim>\<open>except NotFoundError\<close> branch of \<^verbatim>\<open>get_worksheet_uuid_or_create\<close>; \<open>e\<close> is the
  error it caught and re-raises in its last case.\<close>

definition create_on_not_found ::
  "env \<Rightarrow> string \<Rightarrow> error \<Rightarrow> model \<Rightarrow> (error + uuid) \<times> model" where
  "create_on_not_found env worksheet_spec e s =
     (case (if worksheet_spec = [] \<or> worksheet_spec = HOME_WORKSHEET env
            then request_user env else None) of
        Some usr \<Rightarrow> new_worksheet env (home_worksheet env (user_name usr)) s
      | None \<Rightarrow>
          if is_dashboard env worksheet_spec then new_worksheet env worksheet_spec s
          else (Inl e, s))"

definition get_worksheet_uuid_or_create ::
  "env \<Rightarrow> uuid option \<Rightarrow> string \<Rightarrow> model \<Rightarrow> (error + uuid) \<times> model" where
  "get_worksheet_uuid_or_create env base_worksheet_uuid worksheet_spec s =
     (case get_worksheet_uuid env s (request_user env) base_worksheet_uuid worksheet_spec of
        Inr u \<Rightarrow> (Inr u, s)
      | Inl e \<Rightarrow>
          if is_NotFoundError e then create_on_not_found env worksheet_spec e s
          else (Inl e, s))"

definition add_worksheet_item :: "env \<Rightarrow> uuid \<Rightarrow> item_tuple \<Rightarrow> model \<Rightarrow> (error + unit) \<times> model" where
  "add_worksheet_item env u it s =
     (case get_worksheet s u False of
        Inl e \<Rightarrow> (Inl e, s)
      | Inr worksheet \<Rightarrow>
     (case check_worksheet_has_all_permission s (request_user env) worksheet of
        Inl e \<Rightarrow> (Inl e, s)
      | Inr _ \<Rightarrow>
     (case check_worksheet_not_frozen worksheet of
        Inl e \<Rightarrow> (Inl e, s)
      | Inr _ \<Rightarrow> (Inr (), model_add_worksheet_item u it s))))"

definition delete_worksheet :: "env \<Rightarrow> uuid \<Rightarrow> bool \<Rightarrow> model \<Rightarrow> (error + unit) \<times> model" where
  "delete_worksheet env u force s =
     (case get_worksheet s u True of
        Inl e \<Rightarrow> (Inl e, s)
      | Inr worksheet \<Rightarrow>
     (case check_worksheet_has_all_permission s (request_user env) worksheet of
        Inl e \<Rightarrow> (Inl e, s)
      | Inr _ \<Rightarrow>
     if \<not> force \<and> frozen worksheet \<noteq> None
     then (Inl (UsageError (''Can't delete worksheet '' @ uuid worksheet @
             '' because it is frozen (--force to override).'')), s)
     else if \<not> force \<and> length (items worksheet) > 0
     then (Inl (UsageError (''Can't delete worksheet '' @ uuid worksheet @
             '' because it is not empty (--force to override).'')), s)
     else (Inr (), model_delete_worksheet u s)))"

subsection \<open>The bulk item handler\<close>

text \<open>\<^verbatim>\<open>worksheet_to_items.setdefault(item['worksheet_uuid'], []).append(item)\<close> on a dict
  kept as an association list.\<close>

fun setdefault_append :: "(uuid \<times> item list) list \<Rightarrow> uuid \<Rightarrow> item \<Rightarrow> (uuid \<times> item list) list" where
  "setdefault_append [] k i = [(k, [i])]"
| "setdefault_append ((k', xs) # d) k i =
     (if k' = k then (k', xs @ [i]) # d else (k', xs) # setdefault_append d k i)"

definition worksheet_to_items :: "item list \<Rightarrow> (uuid \<times> item list) list" where
  "worksheet_to_items new_items =
     fold (\<lambda>i d. setdefault_append d (worksheet_uuid i) i) new_items []"

text \<open>The inner loop of the append mode: one \<^verbatim>\<open>add_worksheet_item\<close> per item.\<close>

fun add_worksheet_items ::
  "env \<Rightarrow> uuid \<Rightarrow> item list \<Rightarrow> model \<Rightarrow> (error + unit) \<times> model" where
  "add_worksheet_items env u [] s = (Inr (), s)"
| "add_worksheet_items env u (i # xs) s =
     (case add_worksheet_item env u (as_tuple i) s of
        (Inl e, s1) \<Rightarrow> (Inl e, s1)
      | (Inr _, s1) \<Rightarrow> add_worksheet_items env u xs s1)"

text \<open>The outer loop over \<^verbatim>\<open>worksheet_to_items.iteritems()\<close>.\<close>

fun create_worksheet_items_loop ::
  "env \<Rightarrow> bool \<Rightarrow> (uuid \<times> item list) list \<Rightarrow> model \<Rightarrow> (error + unit) \<times> model" where
  "create_worksheet_items_loop env replace [] s = (Inr (), s)"
| "create_worksheet_items_loop env replace ((u, xs) # d) s =
     (case get_worksheet_info env s u True True False of
        Inl e \<Rightarrow> (Inl e, s)
      | Inr worksheet_info \<Rightarrow>
     (case (if replace
            then update_worksheet_items env worksheet_info (Stored (map as_tuple xs)) s
            else add_worksheet_items env u xs s) of
        (Inl e, s1) \<Rightarrow> (Inl e, s1)
      | (Inr _, s1) \<Rightarrow> create_worksheet_items_loop env replace d s1))"

definition create_worksheet_items ::
  "env \<Rightarrow> bool \<Rightarrow> item list \<Rightarrow> model \<Rightarrow> (error + item list) \<times> model" where
  "create_worksheet_items env replace new_items s =
     (case create_worksheet_items_loop env replace
             (iteritems env (worksheet_to_items new_items)) s of
        (Inl e, s1) \<Rightarrow> (Inl e, s1)
      | (Inr _, s1) \<Rightarrow> (Inr new_items, s1))"

section \<open>Sequences of calls\<close>

text \<open>A sequence of \<^verbatim>\<open>update_worksheet_metadata\<close> calls, each from its own request, run one
  after the other; a call that raises leaves the store as it found it and the next call
  goes on from there.\<close>

fun update_worksheet_metadata_calls ::
  "(env \<times> uuid \<times> info_entry list) list \<Rightarrow> model \<Rightarrow> model" where
  "update_worksheet_metadata_calls [] s = s"
| "update_worksheet_metadata_calls ((env, u, info) # calls) s =
     update_worksheet_metadata_calls calls (snd (update_worksheet_metadata env u info s))"

section \<open>Notions used in the statements\<close>

text \<open>What a handler leaves alone: the ACL, the groups, and which worksheets exist under
  which name and owner; the journal only grows.\<close>

definition same_frame :: "model \<Rightarrow> model \<Rightarrow> bool" where
  "same_frame s s' \<longleftrightarrow>
     group_permissions s' = group_permissions s \<and>
     public_group_uuid s' = public_group_uuid s \<and>
     memberships s' = memberships s \<and>
     map (\<lambda>w. (uuid w, name w, owner_id w)) (worksheets s') =
       map (\<lambda>w. (uuid w, name w, owner_id w)) (worksheets s) \<and>
     (\<exists>rest. journal s' = journal s @ rest)"

text \<open>The worksheet \<^verbatim>\<open>new_worksheet\<close> builds for an authenticated user, and the store right
  after it was stored and made publicly readable.\<close>

definition created_worksheet :: "env \<Rightarrow> string \<Rightarrow> user \<Rightarrow> worksheet" where
  "created_worksheet env nm usr =
     \<lparr>uuid = new_uuid env, name = nm, owner_id = user_id usr, title = None,
      frozen = None, tags = [], items = [], last_item_id = 0\<rparr>"

definition after_creation :: "env \<Rightarrow> string \<Rightarrow> user \<Rightarrow> model \<Rightarrow> model" where
  "after_creation env nm usr s =
     model_set_group_worksheet_permission (public_group_uuid s) (new_uuid env)
       GROUP_OBJECT_PERMISSION_READ
       (s\<lparr>journal := journal s @ [NewWorksheet (new_uuid env) nm],
          worksheets := worksheets s @ [created_worksheet env nm usr]\<rparr>)"

section \<open>Concrete scenarios\<close>

text \<open>Two users, a request environment for each with the values codalab uses for the
  library constants, and a store with a frozen and an open worksheet, both owned by the
  first user and readable by the public group. Their items refer to a bundle and a
  sub-worksheet that no longer exist. These are the inputs at which the theorems below are
  evaluated.\<close>

definition alice :: user where
  "alice = \<lparr>user_id = ''1'', user_name = ''alice'', is_authenticated = True\<rparr>"

definition env0 :: env where
  "env0 = \<lparr>request_user = Some alice, now = 7, new_uuid = ''0x9'',
     HOME_WORKSHEET = ''/'', home_worksheet = (\<lambda>n. ''home-'' @ n),
     is_home_worksheet = (\<lambda>n. take 5 n = ''home-''),
     is_dashboard = (\<lambda>n. n = ''dashboard''), is_public_home = (\<lambda>n. n = ''home''),
     string_to_tokens = (\<lambda>v. [v]),
     convert_item_to_db = (\<lambda>(b, sw, v, t).
        Inr (map_option (\<lambda>i. case i of Info x \<Rightarrow> b_uuid x | Stub u \<Rightarrow> u) b,
             map_option (\<lambda>i. case i of Info x \<Rightarrow> info_uuid x | Stub u \<Rightarrow> u) sw,
             (case v of Raw r \<Rightarrow> r | Tokens ts \<Rightarrow> concat ts), t)),
     parse_worksheet_form = (\<lambda>n s u. Inr []),
     iteritems = (\<lambda>d. d)\<rparr>"

definition bob :: user where
  "bob = \<lparr>user_id = ''2'', user_name = ''bob'', is_authenticated = True\<rparr>"

definition env_bob :: env where
  "env_bob = env0\<lparr>request_user := Some bob\<rparr>"

definition ws1 :: worksheet where
  "ws1 = \<lparr>uuid = ''0x1'', name = ''notes'', owner_id = ''1'', title = None, frozen = Some 3,
     tags = [], items = [(Some ''0xb'', None, [], TYPE_BUNDLE)], last_item_id = 4\<rparr>"

definition ws2 :: worksheet where
  "ws2 = \<lparr>uuid = ''0x2'', name = ''draft'', owner_id = ''1'', title = None, frozen = None,
     tags = [], items = [(Some ''0xb'', None, [], TYPE_BUNDLE),
                         (None, Some ''0x7'', [], TYPE_WORKSHEET)], last_item_id = 6\<rparr>"

definition s0 :: model where
  "s0 = \<lparr>worksheets = [ws1, ws2], bundles = [], users = [alice, bob], memberships = [],
     group_permissions = [((''0xf'', ''0x1''), GROUP_OBJECT_PERMISSION_READ),
                          ((''0xf'', ''0x2''), GROUP_OBJECT_PERMISSION_READ)],
     public_group_uuid = ''0xf'', journal = []\<rparr>"

text \<open>The view of the open worksheet a caller fetched before one more write advanced its
  token.\<close>

definition stale_info :: "worksheet_info \<times> info_items" where
  "stale_info = ((to_dict ws2)\<lparr>info_last_item_id := 5\<rparr>, to_dict_items ws2 False)"



text \<open>The store after the first user's home worksheet was created by one of two racing
  requests.\<close>

definition s_won :: model where
  "s_won = after_creation env0 ''home-alice'' alice s0"

text \<open>Two markup items posted for the open worksheet.\<close>

definition note_a :: item where
  "note_a = \<lparr>worksheet_uuid = ''0x2'', bundle_uuid = None, subworksheet_uuid = None,
     item_value = ''a'', item_type = TYPE_MARKUP\<rparr>"

definition note_b :: item where
  "note_b = \<lparr>worksheet_uuid = ''0x2'', bundle_uuid = None, subworksheet_uuid = None,
     item_value = ''b'', item_type = TYPE_MARKUP\<rparr>"




section \<open>Facts about the store and the helpers\<close>

lemmas scenario_defs = env0_def env_bob_def s0_def ws1_def ws2_def alice_def bob_def

subsection \<open>Looking a worksheet up\<close>

lemma get_worksheet_uuid: "get_worksheet s u b = Inr w \<Longrightarrow> uuid w = u"
  by (auto simp: get_worksheet_def find_Some_iff split: option.splits if_splits)

lemma get_worksheet_deleted:
  "get_worksheet (model_delete_worksheet u s) u b = Inl (NotFoundError (''No worksheet with uuid '' @ u))"
  by (simp add: get_worksheet_def model_delete_worksheet_def find_None_iff split: option.splits)

lemma find_filter_other: "v \<noteq> u \<Longrightarrow> find (\<lambda>w. uuid w = v) (filter (\<lambda>w. uuid w \<noteq> u) xs) = find (\<lambda>w. uuid w = v) xs"
  by (induction xs) auto

lemma get_worksheet_delete_other:
  "v \<noteq> u \<Longrightarrow> get_worksheet (model_delete_worksheet u s) v b = get_worksheet s v b"
  by (simp add: get_worksheet_def model_delete_worksheet_def find_filter_other)

lemma find_map_same_uuid:
  assumes "\<And>x. uuid (g x) = uuid x"
  shows "find (\<lambda>w. uuid w = v) (map (\<lambda>x. if uuid x = u then g x else x) xs) =
         map_option (\<lambda>x. if uuid x = u then g x else x) (find (\<lambda>w. uuid w = v) xs)"
  using assms by (induction xs) auto

lemma permissionLevel_items [simp]:
  "permissionLevel s usr (w\<lparr>items := xs\<rparr>) = permissionLevel s usr w"
  by (simp add: permissionLevel_def split: option.splits)

lemma worksheet_str_items [simp]: "worksheet_str (w\<lparr>items := xs\<rparr>) = worksheet_str w"
  by (simp add: worksheet_str_def)

lemma check_not_frozen_items [simp]:
  "check_worksheet_not_frozen (w\<lparr>items := xs\<rparr>) = check_worksheet_not_frozen w"
  by (simp add: check_worksheet_not_frozen_def split: option.splits)

lemma concurrently_items [simp]: "concurrently (w\<lparr>items := xs\<rparr>) = concurrently w"
  by (simp add: concurrently_def)

lemma check_all_items [simp]:
  "check_worksheet_has_all_permission s usr (w\<lparr>items := xs\<rparr>) = check_worksheet_has_all_permission s usr w"
  by (simp add: check_worksheet_has_all_permission_def worksheet_str_def permissionLevel_def
      split: option.splits)

lemma get_worksheet_False:
  "get_worksheet s u True = Inr w \<Longrightarrow> get_worksheet s u False = Inr (w\<lparr>items := []\<rparr>)"
  by (auto simp: get_worksheet_def split: option.splits)

lemma get_worksheet_find:
  "get_worksheet s u True = Inr w \<Longrightarrow> find (\<lambda>w. uuid w = u) (worksheets s) = Some w"
  by (auto simp: get_worksheet_def split: option.splits)

subsection \<open>Fetching the info dict\<close>

lemma get_worksheet_info_plain:
  assumes "get_worksheet s u True = Inr w"
  shows "get_worksheet_info env s u True True False =
     (if 1 \<le> permission_rank (permissionLevel s (request_user env) w)
      then (case request_user env of
              None \<Rightarrow> Inl (AttributeError ''user_id'')
            | Some usr \<Rightarrow>
                Inr ((to_dict w)\<lparr>info_group_permissions :=
                                   Some (get_group_worksheet_permissions s u),
                                 info_permission := Some (permissionLevel s (Some usr) w)\<rparr>,
                     to_dict_items w False))
      else Inl (PermissionError (''read permission required on '' @ worksheet_str w)))"
  using assms get_worksheet_uuid[OF assms]
  by (simp add: get_worksheet_info_def check_worksheet_has_read_permission_def
      split: option.splits)

lemma get_worksheet_info_denied:
  assumes "get_worksheet s u True = Inr w"
    and "permission_rank (permissionLevel s (request_user env) w) = 0"
  shows "get_worksheet_info env s u fi fp legacy =
           Inl (PermissionError (''read permission required on '' @ worksheet_str w))"
proof (cases fi)
  case True
  with assms show ?thesis
    by (simp add: get_worksheet_info_def check_worksheet_has_read_permission_def)
next
  case False
  with assms get_worksheet_False[OF assms(1)] show ?thesis
    by (simp add: get_worksheet_info_def check_worksheet_has_read_permission_def)
qed


subsection \<open>Metadata updates keep a worksheet frozen\<close>

lemma apply_metadata_uuid [simp]: "uuid (apply_metadata m x) = uuid x"
  by (simp add: apply_metadata_def)

lemma apply_metadata_frozen: "frozen x = Some t \<Longrightarrow> \<exists>t'. frozen (apply_metadata m x) = Some t'"
  by (simp add: apply_metadata_def split: option.splits)

lemma update_worksheet_metadata_cases:
  "snd (update_worksheet_metadata env u info s) = s \<or>
   (\<exists>w0 m. uuid w0 = u \<and>
      snd (update_worksheet_metadata env u info s) = model_update_worksheet_metadata w0 m s)"
  by (auto simp: update_worksheet_metadata_def dest: get_worksheet_uuid
      split: sum.splits)

lemma frozen_kept_by_store_update:
  assumes "get_worksheet s v True = Inr w" and "frozen w \<noteq> None"
  shows "\<exists>w'. get_worksheet (model_update_worksheet_metadata w0 m s) v True = Inr w' \<and>
              frozen w' \<noteq> None"
  using get_worksheet_find[OF assms(1)] assms(2)
  by (auto simp: get_worksheet_def model_update_worksheet_metadata_def find_map_same_uuid
      dest: apply_metadata_frozen)

lemma frozen_kept_by_update:
  assumes "get_worksheet s v True = Inr w" and "frozen w \<noteq> None"
  shows "\<exists>w'. get_worksheet (snd (update_worksheet_metadata env u info s)) v True = Inr w' \<and>
              frozen w' \<noteq> None"
  using update_worksheet_metadata_cases[of env u info s] assms
    frozen_kept_by_store_update[OF assms]
  by auto

lemma frozen_kept_by_calls:
  "get_worksheet s v True = Inr w \<Longrightarrow> frozen w \<noteq> None \<Longrightarrow>
   \<exists>w'. get_worksheet (update_worksheet_metadata_calls calls s) v True = Inr w' \<and>
        frozen w' \<noteq> None"
proof (induction calls arbitrary: s w)
  case Nil
  then show ?case by simp
next
  case (Cons c calls)
  obtain env u info where c: "c = (env, u, info)" by (cases c)
  from frozen_kept_by_update[OF Cons.prems, of env u info]
  obtain w1 where "get_worksheet (snd (update_worksheet_metadata env u info s)) v True = Inr w1"
    and "frozen w1 \<noteq> None" by blast
  from Cons.IH[OF this] show ?case by (simp add: c)
qed

subsection \<open>The public group\<close>

lemma rank_fold_max_init:
  "permission_rank a \<le> permission_rank (fold permission_max ps a)"
proof (induction ps arbitrary: a)
  case Nil
  then show ?case by simp
next
  case (Cons p ps)
  have "permission_rank a \<le> permission_rank (permission_max p a)"
    by (simp add: permission_max_def)
  also have "\<dots> \<le> permission_rank (fold permission_max ps (permission_max p a))"
    by (rule Cons.IH)
  finally show ?case by simp
qed

lemma rank_fold_max_head:
  "permission_rank p \<le> permission_rank (fold permission_max (p # ps) a)"
proof -
  have "permission_rank p \<le> permission_rank (permission_max p a)"
    by (simp add: permission_max_def)
  also have "\<dots> \<le> permission_rank (fold permission_max ps (permission_max p a))"
    by (rule rank_fold_max_init)
  finally show ?thesis by simp
qed

lemma public_read_readable:
  assumes "group_permission s (public_group_uuid s) (uuid w) = GROUP_OBJECT_PERMISSION_READ"
  shows "check_worksheet_has_read_permission s v w = Inr ()"
proof -
  have "1 \<le> permission_rank (permissionLevel s v w)"
    using rank_fold_max_head[of "group_permission s (public_group_uuid s) (uuid w)" _
        GROUP_OBJECT_PERMISSION_NONE] assms
    by (auto simp: permissionLevel_def groups_of_def)
  then show ?thesis by (simp add: check_worksheet_has_read_permission_def)
qed

subsection \<open>What populating a worksheet leaves alone\<close>

lemma same_frame_refl [simp]: "same_frame s s"
  by (simp add: same_frame_def)

lemma same_frame_trans: "same_frame s s1 \<Longrightarrow> same_frame s1 s2 \<Longrightarrow> same_frame s s2"
  by (auto simp: same_frame_def)

lemma map_key_update:
  "(\<And>x. h (f x) = h x) \<Longrightarrow> map h (map f xs) = map h xs"
  by simp

lemma model_update_worksheet_items_frame:
  "model_update_worksheet_items u l n its s = (r, s') \<Longrightarrow> same_frame s s'"
  by (auto simp: model_update_worksheet_items_def Let_def same_frame_def
      split: option.splits if_splits intro!: map_key_update)

lemma update_worksheet_items_frame:
  "update_worksheet_items env info new_items s = (r, s') \<Longrightarrow> same_frame s s'"
  by (auto simp: update_worksheet_items_def Let_def
      split: sum.splits prod.splits dest: model_update_worksheet_items_frame)

lemma title_update_frame:
  "update_worksheet_metadata env u [Title t] s = (r, s') \<Longrightarrow> same_frame s s'"
  by (auto simp: update_worksheet_metadata_def model_update_worksheet_metadata_def
      same_frame_def apply_metadata_def empty_metadata_def split: sum.splits
      intro!: map_key_update)

lemma populate_worksheet_frame:
  assumes "populate_worksheet env w nm ttl s = (r, s')"
  shows "same_frame s s'"
proof (cases "parse_worksheet_form env nm s (uuid w)")
  case (Inl e)
  with assms show ?thesis by (simp add: populate_worksheet_def)
next
  case (Inr its)
  show ?thesis
  proof (cases "get_worksheet_info env s (uuid w) True True False")
    case (Inl e)
    with assms Inr show ?thesis by (simp add: populate_worksheet_def)
  next
    case info: (Inr info)
    obtain r1 s1 where u: "update_worksheet_items env info (Convert its) s = (r1, s1)"
      by (cases "update_worksheet_items env info (Convert its) s")
    note f1 = update_worksheet_items_frame[OF u]
    show ?thesis
    proof (cases r1)
      case (Inl e)
      with assms Inr info u f1 show ?thesis by (simp add: populate_worksheet_def)
    next
      case ok: (Inr x)
      with assms Inr info u
      have "update_worksheet_metadata env (uuid w) [Title (Some ttl)] s1 = (r, s')"
        by (simp add: populate_worksheet_def)
      from same_frame_trans[OF f1 title_update_frame[OF this]] show ?thesis .
    qed
  qed
qed

subsection \<open>Creating a worksheet\<close>

lemma new_worksheet_created:
  assumes "new_worksheet env nm s = (r, s')"
    and "(\<exists>u. r = Inr u) \<or> worksheets s' \<noteq> worksheets s"
  shows "\<exists>usr. request_user env = Some usr \<and> is_authenticated usr \<and>
           same_frame (after_creation env nm usr s) s' \<and>
           (\<forall>u. r = Inr u \<longrightarrow> u = new_uuid env)"
proof (cases "request_user env")
  case None
  with assms show ?thesis by (auto simp: new_worksheet_def)
next
  case (Some usr)
  let ?w = "created_worksheet env nm usr"
  let ?s1 = "s\<lparr>journal := journal s @ [NewWorksheet (new_uuid env) nm],
                worksheets := worksheets s @ [?w]\<rparr>"
  let ?s2 = "after_creation env nm usr s"
  have perm: "set_worksheet_permission env ?w (public_group_uuid ?s1)
                GROUP_OBJECT_PERMISSION_READ ?s1 = (Inr (), ?s2)"
    using Some
    by (simp add: set_worksheet_permission_def check_worksheet_has_all_permission_def
        permissionLevel_def created_worksheet_def after_creation_def)
  from assms Some have auth: "is_authenticated usr"
    by (auto simp: new_worksheet_def split: if_splits)
  from assms Some auth have unused: "ensure_unused_worksheet_name env s nm = Inr ()"
    by (auto simp: new_worksheet_def split: sum.splits)
  from assms Some auth unused have fresh: "nm \<notin> name ` set (worksheets s)"
    by (auto simp: new_worksheet_def model_new_worksheet_def Let_def created_worksheet_def
        split: if_splits)
  then have store: "model_new_worksheet ?w s = (Inr (), ?s1)"
    by (simp add: model_new_worksheet_def Let_def created_worksheet_def)
  obtain r3 s3 where p3: "(if is_dashboard env nm
            then populate_worksheet env ?w ''dashboard'' ''CodaLab Dashboard'' ?s2
            else (Inr (), ?s2)) = (r3, s3)"
    by (cases "if is_dashboard env nm
            then populate_worksheet env ?w ''dashboard'' ''CodaLab Dashboard'' ?s2
            else (Inr (), ?s2)")
  then have f3: "same_frame ?s2 s3"
    by (auto split: if_splits dest: populate_worksheet_frame)
  obtain r4 s4 where p4: "(if is_public_home env nm
            then populate_worksheet env ?w ''home'' ''Public Home'' s3
            else (Inr (), s3)) = (r4, s4)"
    by (cases "if is_public_home env nm
            then populate_worksheet env ?w ''home'' ''Public Home'' s3
            else (Inr (), s3)")
  then have f4: "same_frame s3 s4"
    by (auto split: if_splits dest: populate_worksheet_frame)
  have res: "(r, s') = (case r3 of Inl e \<Rightarrow> (Inl e, s3)
                         | Inr _ \<Rightarrow> (case r4 of Inl e \<Rightarrow> (Inl e, s4)
                                       | Inr _ \<Rightarrow> (Inr (new_uuid env), s4)))"
    using assms(1) Some auth unused store[unfolded created_worksheet_def]
      perm[unfolded created_worksheet_def] p3[unfolded created_worksheet_def]
      p4[unfolded created_worksheet_def]
    by (simp add: new_worksheet_def Let_def split: sum.splits)
  have "same_frame ?s2 s' \<and> (\<forall>u. r = Inr u \<longrightarrow> u = new_uuid env)"
    using res f3 same_frame_trans[OF f3 f4] by (auto split: sum.splits)
  with Some auth show ?thesis by simp
qed

subsection \<open>Resolving a name\<close>


lemma find_SomeD: "find P xs = Some x \<Longrightarrow> x \<in> set xs \<and> P x"
  by (induction xs) (auto split: if_splits)




lemma new_worksheet_name_taken:
  assumes "request_user env = Some usr" and "is_authenticated usr"
    and "get_worksheet_uuid env s (Some usr) None nm = Inr u"
    and "is_home_worksheet env nm \<longrightarrow> home_worksheet env (user_name usr) = nm"
  shows "new_worksheet env nm s =
           (Inl (UsageError (''Worksheet with name '' @ nm @ '' already exists'')), s)"
  using assms by (auto simp: new_worksheet_def ensure_unused_worksheet_name_def)

subsection \<open>The fetched document\<close>





lemma to_dict_items [simp]: "to_dict (w\<lparr>items := xs\<rparr>) = to_dict w"
  by (simp add: to_dict_def)

subsection \<open>Converting stored items\<close>












subsection \<open>Grouping a batch\<close>

lemma keys_setdefault_append:
  "map fst (setdefault_append d k i) =
     (if k \<in> fst ` set d then map fst d else map fst d @ [k])"
  by (induction d k i rule: setdefault_append.induct) auto

lemma map_of_setdefault_append:
  "map_of (setdefault_append d k i) u =
     (if u = k then Some ((case map_of d k of None \<Rightarrow> [] | Some ys \<Rightarrow> ys) @ [i])
      else map_of d u)"
  by (induction d k i rule: setdefault_append.induct) auto

lemma distinct_setdefault_append:
  "distinct (map fst d) \<Longrightarrow> distinct (map fst (setdefault_append d k i))"
  by (simp add: keys_setdefault_append)

lemma fold_setdefault_append:
  "distinct (map fst d) \<Longrightarrow>
   distinct (map fst (fold (\<lambda>i d. setdefault_append d (worksheet_uuid i) i) xs d)) \<and>
   map_of (fold (\<lambda>i d. setdefault_append d (worksheet_uuid i) i) xs d) u =
     (case map_of d u of
        None \<Rightarrow> (if u \<in> worksheet_uuid ` set xs
                 then Some (filter (\<lambda>i. worksheet_uuid i = u) xs) else None)
      | Some ys \<Rightarrow> Some (ys @ filter (\<lambda>i. worksheet_uuid i = u) xs))"
proof (induction xs arbitrary: d)
  case Nil
  then show ?case by (simp split: option.splits)
next
  case (Cons x xs)
  let ?d1 = "setdefault_append d (worksheet_uuid x) x"
  note IH = Cons.IH[OF distinct_setdefault_append[OF Cons.prems, of "worksheet_uuid x" x]]
  show ?case
  proof (cases "u = worksheet_uuid x")
    case True
    then have "map_of ?d1 u = Some ((case map_of d u of None \<Rightarrow> [] | Some ys \<Rightarrow> ys) @ [x])"
      by (simp add: map_of_setdefault_append)
    with IH True show ?thesis by (cases "map_of d u") simp_all
  next
    case False
    then have "map_of ?d1 u = map_of d u"
      by (simp add: map_of_setdefault_append)
    with IH False show ?thesis by (cases "map_of d u") simp_all
  qed
qed

lemma worksheet_to_items_groups:
  "distinct (map fst (worksheet_to_items new_items)) \<and>
   map_of (worksheet_to_items new_items) u =
     (if u \<in> worksheet_uuid ` set new_items
      then Some (filter (\<lambda>i. worksheet_uuid i = u) new_items) else None)"
  using fold_setdefault_append[of "[]" new_items u] by (simp add: worksheet_to_items_def)

lemma group_member:
  assumes "set gs = set (worksheet_to_items new_items)"
  shows "(u, xs) \<in> set gs \<longleftrightarrow>
         u \<in> worksheet_uuid ` set new_items \<and> xs = filter (\<lambda>i. worksheet_uuid i = u) new_items"
proof -
  let ?W = "worksheet_to_items new_items"
  from worksheet_to_items_groups[of new_items u]
  have d: "distinct (map fst ?W)"
    and m: "map_of ?W u = (if u \<in> worksheet_uuid ` set new_items
              then Some (filter (\<lambda>i. worksheet_uuid i = u) new_items) else None)"
    by blast+
  have "(u, xs) \<in> set gs \<longleftrightarrow> (u, xs) \<in> set ?W" by (simp only: assms)
  also have "\<dots> \<longleftrightarrow> map_of ?W u = Some xs" by (rule map_of_eq_Some_iff[OF d, symmetric])
  also have "\<dots> \<longleftrightarrow> u \<in> worksheet_uuid ` set new_items \<and>
                     xs = filter (\<lambda>i. worksheet_uuid i = u) new_items"
    unfolding m by (cases "u \<in> worksheet_uuid ` set new_items") (simp_all add: eq_commute)
  finally show ?thesis .
qed


subsection \<open>The loops of the bulk handler\<close>

lemma find_map_other:
  assumes "v \<noteq> u" and "\<And>x. uuid (g x) = uuid x"
  shows "find (\<lambda>w. uuid w = v) (map (\<lambda>x. if uuid x = u then g x else x) xs) =
         find (\<lambda>w. uuid w = v) xs"
  using assms by (induction xs) auto

lemma get_worksheet_cong:
  "find (\<lambda>w. uuid w = v) (worksheets s1) = find (\<lambda>w. uuid w = v) (worksheets s) \<Longrightarrow>
   get_worksheet s1 v b = get_worksheet s v b"
  by (simp add: get_worksheet_def)

lemma get_worksheet_info_uuid:
  assumes "get_worksheet_info env s u True True False = Inr info"
  shows "info_uuid (fst info) = u"
proof (cases "get_worksheet s u True")
  case (Inl e)
  with assms show ?thesis by (simp add: get_worksheet_info_def)
next
  case (Inr w)
  from assms get_worksheet_uuid[OF Inr] show ?thesis
    by (auto simp: get_worksheet_info_plain[OF Inr] to_dict_def split: if_splits option.splits)
qed

lemma model_update_worksheet_items_ok:
  assumes "model_update_worksheet_items u l n db s = (Inr (), s1)"
  shows "journal s1 = journal s @ [ReplaceItems u l n db]"
    and "\<exists>w1. get_worksheet s1 u True = Inr w1 \<and> items w1 = db"
    and "v \<noteq> u \<Longrightarrow> get_worksheet s1 v b = get_worksheet s v b"
proof -
  from assms obtain w where f: "find (\<lambda>w. uuid w = u) (worksheets s) = Some w"
    and s1: "s1 = s\<lparr>journal := journal s @ [ReplaceItems u l n db],
                    worksheets := map (\<lambda>x. if uuid x = u
                        then x\<lparr>items := db, last_item_id := Suc (last_item_id x)\<rparr>
                        else x) (worksheets s)\<rparr>"
    by (auto simp: model_update_worksheet_items_def Let_def split: option.splits if_splits)
  show "journal s1 = journal s @ [ReplaceItems u l n db]" by (simp add: s1)
  from find_SomeD[OF f] have "uuid w = u" by simp
  then show "\<exists>w1. get_worksheet s1 u True = Inr w1 \<and> items w1 = db"
    by (simp add: s1 get_worksheet_def find_map_same_uuid f)
  show "get_worksheet s1 v b = get_worksheet s v b" if "v \<noteq> u"
    by (rule get_worksheet_cong) (simp add: s1 find_map_other[OF that])
qed

lemma update_worksheet_items_ok:
  assumes "update_worksheet_items env info (Stored db) s = (Inr (), s1)"
  shows "\<exists>l n. journal s1 = journal s @ [ReplaceItems (info_uuid (fst info)) l n db]"
    and "\<exists>w1. get_worksheet s1 (info_uuid (fst info)) True = Inr w1 \<and> items w1 = db"
    and "v \<noteq> info_uuid (fst info) \<Longrightarrow> get_worksheet s1 v b = get_worksheet s v b"
proof -
  from assms have m: "model_update_worksheet_items (info_uuid (fst info))
      (info_last_item_id (fst info)) (len_items (snd info)) db s = (Inr (), s1)"
    by (auto simp: update_worksheet_items_def Let_def items_to_db_def
        split: sum.splits prod.splits)
  from model_update_worksheet_items_ok(1)[OF m]
  show "\<exists>l n. journal s1 = journal s @ [ReplaceItems (info_uuid (fst info)) l n db]" by blast
  from model_update_worksheet_items_ok(2)[OF m]
  show "\<exists>w1. get_worksheet s1 (info_uuid (fst info)) True = Inr w1 \<and> items w1 = db" .
  show "get_worksheet s1 v b = get_worksheet s v b" if "v \<noteq> info_uuid (fst info)"
    by (rule model_update_worksheet_items_ok(3)[OF m that])
qed

lemma model_add_worksheet_item_effect:
  shows "journal (model_add_worksheet_item u it s) = journal s @ [AppendItem u it]"
    and "get_worksheet s u True = Inr w \<Longrightarrow>
         \<exists>w1. get_worksheet (model_add_worksheet_item u it s) u True = Inr w1 \<and>
              items w1 = items w @ [it]"
    and "v \<noteq> u \<Longrightarrow> get_worksheet (model_add_worksheet_item u it s) v b = get_worksheet s v b"
proof -
  show "journal (model_add_worksheet_item u it s) = journal s @ [AppendItem u it]"
    by (simp add: model_add_worksheet_item_def)
  show "\<exists>w1. get_worksheet (model_add_worksheet_item u it s) u True = Inr w1 \<and>
              items w1 = items w @ [it]" if g: "get_worksheet s u True = Inr w"
    using get_worksheet_find[OF g] get_worksheet_uuid[OF g]
    by (simp add: model_add_worksheet_item_def get_worksheet_def find_map_same_uuid)
  show "get_worksheet (model_add_worksheet_item u it s) v b = get_worksheet s v b" if "v \<noteq> u"
    by (rule get_worksheet_cong) (simp add: model_add_worksheet_item_def find_map_other[OF that])
qed

lemma add_worksheet_item_ok:
  "add_worksheet_item env u it s = (Inr (), s1) \<Longrightarrow>
   s1 = model_add_worksheet_item u it s \<and> (\<exists>w. get_worksheet s u True = Inr w)"
  by (auto simp: add_worksheet_item_def get_worksheet_def split: sum.splits option.splits)

lemma add_worksheet_items_ok:
  "add_worksheet_items env u xs s = (Inr (), s1) \<Longrightarrow>
   journal s1 = journal s @ map (\<lambda>i. AppendItem u (as_tuple i)) xs \<and>
   (\<forall>w. get_worksheet s u True = Inr w \<longrightarrow>
      (\<exists>w1. get_worksheet s1 u True = Inr w1 \<and> items w1 = items w @ map as_tuple xs)) \<and>
   (\<forall>v b. v \<noteq> u \<longrightarrow> get_worksheet s1 v b = get_worksheet s v b)"
proof (induction xs arbitrary: s)
  case Nil
  then show ?case by simp
next
  case (Cons x xs)
  from Cons.prems obtain s0 where a: "add_worksheet_item env u (as_tuple x) s = (Inr (), s0)"
    and r: "add_worksheet_items env u xs s0 = (Inr (), s1)"
    by (auto split: prod.splits sum.splits)
  from add_worksheet_item_ok[OF a] have s0: "s0 = model_add_worksheet_item u (as_tuple x) s"
    by simp
  note e = model_add_worksheet_item_effect[where u = u and it = "as_tuple x" and s = s,
      folded s0]
  note IH = Cons.IH[OF r]
  have j: "journal s1 = journal s @ map (\<lambda>i. AppendItem u (as_tuple i)) (x # xs)"
    using IH e(1) by simp
  have g: "\<exists>w1. get_worksheet s1 u True = Inr w1 \<and> items w1 = items w @ map as_tuple (x # xs)"
    if "get_worksheet s u True = Inr w" for w
  proof -
    from e(2)[OF that] obtain w0 where "get_worksheet s0 u True = Inr w0"
      and "items w0 = items w @ [as_tuple x]" by blast
    with IH show ?thesis by auto
  qed
  have o: "get_worksheet s1 v b = get_worksheet s v b" if "v \<noteq> u" for v b
    using IH e(3)[OF that] that by simp
  from j g o show ?case by blast
qed


lemma get_worksheet_info_exists:
  assumes "get_worksheet_info env s u True True False = Inr info"
  shows "\<exists>w. get_worksheet s u True = Inr w"
  using assms by (cases "get_worksheet s u True") (simp_all add: get_worksheet_info_def)

lemma loop_step:
  assumes "create_worksheet_items_loop env replace ((u, xs) # d) s = (Inr (), s')"
  obtains info s1 where "get_worksheet_info env s u True True False = Inr info"
    and "(if replace then update_worksheet_items env info (Stored (map as_tuple xs)) s
          else add_worksheet_items env u xs s) = (Inr (), s1)"
    and "create_worksheet_items_loop env replace d s1 = (Inr (), s')"
  using assms by (auto split: sum.splits prod.splits)

lemma loop_replace:
  "create_worksheet_items_loop env True gs s = (Inr (), s') \<Longrightarrow> distinct (map fst gs) \<Longrightarrow>
   (\<exists>cs. journal s' = journal s @ cs \<and>
      list_all2 (\<lambda>g c. \<exists>l n. c = ReplaceItems (fst g) l n (map as_tuple (snd g))) gs cs) \<and>
   (\<forall>u xs. (u, xs) \<in> set gs \<longrightarrow>
      (\<exists>w'. get_worksheet s' u True = Inr w' \<and> items w' = map as_tuple xs)) \<and>
   (\<forall>v b. v \<notin> fst ` set gs \<longrightarrow> get_worksheet s' v b = get_worksheet s v b)"
proof (induction gs arbitrary: s)
  case Nil
  then show ?case by simp
next
  case (Cons g d)
  obtain u xs where g: "g = (u, xs)" by (cases g)
  from Cons.prems(1)[unfolded g] obtain info s1 where
    i: "get_worksheet_info env s u True True False = Inr info" and
    up: "update_worksheet_items env info (Stored (map as_tuple xs)) s = (Inr (), s1)" and
    rest: "create_worksheet_items_loop env True d s1 = (Inr (), s')"
    by (rule loop_step) simp
  note iu = get_worksheet_info_uuid[OF i]
  note ok = update_worksheet_items_ok[OF up, unfolded iu]
  from Cons.prems(2) have dd: "distinct (map fst d)" and nu: "u \<notin> fst ` set d"
    by (simp_all add: g)
  from Cons.IH[OF rest dd] obtain cs where
    j: "journal s' = journal s1 @ cs" and
    l: "list_all2 (\<lambda>g c. \<exists>l n. c = ReplaceItems (fst g) l n (map as_tuple (snd g))) d cs" and
    it: "\<forall>v ys. (v, ys) \<in> set d \<longrightarrow>
           (\<exists>w'. get_worksheet s' v True = Inr w' \<and> items w' = map as_tuple ys)" and
    ot: "\<forall>v b. v \<notin> fst ` set d \<longrightarrow> get_worksheet s' v b = get_worksheet s1 v b"
    by blast
  from ok(1) obtain l0 n0 where
    j1: "journal s1 = journal s @ [ReplaceItems u l0 n0 (map as_tuple xs)]" by blast
  have A: "\<exists>cs. journal s' = journal s @ cs \<and>
      list_all2 (\<lambda>g c. \<exists>l n. c = ReplaceItems (fst g) l n (map as_tuple (snd g))) (g # d) cs"
  proof (intro exI conjI)
    show "journal s' = journal s @ (ReplaceItems u l0 n0 (map as_tuple xs) # cs)"
      by (simp add: j j1)
    show "list_all2 (\<lambda>g c. \<exists>l n. c = ReplaceItems (fst g) l n (map as_tuple (snd g))) (g # d)
            (ReplaceItems u l0 n0 (map as_tuple xs) # cs)"
      using l by (simp add: g)
  qed
  have B: "\<exists>w'. get_worksheet s' v True = Inr w' \<and> items w' = map as_tuple ys"
    if "(v, ys) \<in> set (g # d)" for v ys
  proof (cases "(v, ys) = (u, xs)")
    case True
    with ok(2) ot nu show ?thesis by auto
  next
    case False
    with that g it show ?thesis by auto
  qed
  have C: "get_worksheet s' v b = get_worksheet s v b" if "v \<notin> fst ` set (g # d)" for v b
  proof -
    from that have "v \<noteq> u" "v \<notin> fst ` set d" by (auto simp: g)
    with ot ok(3)[of v b] show ?thesis by simp
  qed
  from A B C show ?case by blast
qed

lemma loop_append:
  "create_worksheet_items_loop env False gs s = (Inr (), s') \<Longrightarrow> distinct (map fst gs) \<Longrightarrow>
   journal s' = journal s @
     concat (map (\<lambda>g. map (\<lambda>i. AppendItem (fst g) (as_tuple i)) (snd g)) gs) \<and>
   (\<forall>u xs. (u, xs) \<in> set gs \<longrightarrow>
      (\<exists>w w'. get_worksheet s u True = Inr w \<and> get_worksheet s' u True = Inr w' \<and>
              items w' = items w @ map as_tuple xs)) \<and>
   (\<forall>v b. v \<notin> fst ` set gs \<longrightarrow> get_worksheet s' v b = get_worksheet s v b)"
proof (induction gs arbitrary: s)
  case Nil
  then show ?case by simp
next
  case (Cons g d)
  obtain u xs where g: "g = (u, xs)" by (cases g)
  from Cons.prems(1)[unfolded g] obtain info s1 where
    i: "get_worksheet_info env s u True True False = Inr info" and
    up: "add_worksheet_items env u xs s = (Inr (), s1)" and
    rest: "create_worksheet_items_loop env False d s1 = (Inr (), s')"
    by (rule loop_step) simp
  from add_worksheet_items_ok[OF up] have
    j1: "journal s1 = journal s @ map (\<lambda>i. AppendItem u (as_tuple i)) xs" and
    g1: "\<forall>w. get_worksheet s u True = Inr w \<longrightarrow>
           (\<exists>w1. get_worksheet s1 u True = Inr w1 \<and> items w1 = items w @ map as_tuple xs)" and
    o1: "\<forall>v b. v \<noteq> u \<longrightarrow> get_worksheet s1 v b = get_worksheet s v b"
    by blast+
  from Cons.prems(2) have dd: "distinct (map fst d)" and nu: "u \<notin> fst ` set d"
    by (simp_all add: g)
  from Cons.IH[OF rest dd] have
    j: "journal s' = journal s1 @
          concat (map (\<lambda>g. map (\<lambda>i. AppendItem (fst g) (as_tuple i)) (snd g)) d)" and
    it: "\<forall>v ys. (v, ys) \<in> set d \<longrightarrow>
           (\<exists>w w'. get_worksheet s1 v True = Inr w \<and> get_worksheet s' v True = Inr w' \<and>
              items w' = items w @ map as_tuple ys)" and
    ot: "\<forall>v b. v \<notin> fst ` set d \<longrightarrow> get_worksheet s' v b = get_worksheet s1 v b"
    by blast+
  have A: "journal s' = journal s @
     concat (map (\<lambda>g. map (\<lambda>i. AppendItem (fst g) (as_tuple i)) (snd g)) (g # d))"
    by (simp add: j j1 g)
  have B: "\<exists>w w'. get_worksheet s v True = Inr w \<and> get_worksheet s' v True = Inr w' \<and>
              items w' = items w @ map as_tuple ys"
    if "(v, ys) \<in> set (g # d)" for v ys
  proof (cases "(v, ys) = (u, xs)")
    case True
    from get_worksheet_info_exists[OF i] obtain w where w: "get_worksheet s u True = Inr w" ..
    with g1 obtain w1 where "get_worksheet s1 u True = Inr w1"
      "items w1 = items w @ map as_tuple xs" by blast
    with ot nu w True show ?thesis by auto
  next
    case False
    with that g have m: "(v, ys) \<in> set d" by auto
    with nu have vu: "v \<noteq> u" by force
    from it m obtain w w' where "get_worksheet s1 v True = Inr w"
      "get_worksheet s' v True = Inr w'" "items w' = items w @ map as_tuple ys" by blast
    moreover from o1 vu have "get_worksheet s1 v True = get_worksheet s v True" by blast
    ultimately show ?thesis by auto
  qed
  have C: "get_worksheet s' v b = get_worksheet s v b" if "v \<notin> fst ` set (g # d)" for v b
  proof -
    from that have "v \<noteq> u" "v \<notin> fst ` set d" by (auto simp: g)
    with ot o1 show ?thesis by simp
  qed
  from A B C show ?case by blast
qed

section \<open>C1: replacing all items\<close>



section \<open>C2: mutations of a frozen worksheet\<close>




section \<open>C3: losing the creation race\<close>

text \<open>Claim C3 says that when the lazy creation fails because the name was taken meanwhile,
  the resolver resolves again and returns the winner's worksheet. The function has no such
  second attempt: the \<^verbatim>\<open>except NotFoundError\<close> branch calls \<^verbatim>\<open>new_worksheet\<close> and whatever
  that raises leaves the function. Two requests of the same user resolve the empty spec on
  the store of the scenario; both lookups fail; the first request creates the home
  worksheet; the \<^verbatim>\<open>except\<close> branch of the second then runs on the store the first one left,
  where the name resolves to the winner's uuid, and raises the name collision.\<close>

theorem lost_race_counterexample:
  "get_worksheet_uuid env0 s0 (request_user env0) None [] =
     Inl (NotFoundError ''No worksheet found with name home-alice'')
   \<and> get_worksheet_uuid_or_create env0 None [] s0 = (Inr ''0x9'', s_won)
   \<and> get_worksheet_uuid env0 s_won (request_user env0) None [] = Inr ''0x9''
   \<and> create_on_not_found (env0\<lparr>new_uuid := ''0xa''\<rparr>) []
        (NotFoundError ''No worksheet found with name home-alice'') s_won =
       (Inl (UsageError ''Worksheet with name home-alice already exists''), s_won)"
  by (simp add: s_won_def get_worksheet_uuid_or_create_def create_on_not_found_def
      new_worksheet_def ensure_unused_worksheet_name_def get_worksheet_uuid_def
      model_new_worksheet_def set_worksheet_permission_def
      check_worksheet_has_all_permission_def permissionLevel_def after_creation_def
      created_worksheet_def model_set_group_worksheet_permission_def scenario_defs)

text \<open>Claim C3, amended. When the \<^verbatim>\<open>except NotFoundError\<close> branch of
  \<^verbatim>\<open>get_worksheet_uuid_or_create\<close> runs for an authenticated caller on a store in which the
  name it is about to create (the caller's home worksheet name, or the dashboard spec)
  already resolves to a worksheet, it raises the \<^verbatim>\<open>UsageError\<close> saying that a worksheet with
  that name already exists and leaves the store unchanged; the other worksheet's uuid is
  not returned.\<close>

theorem name_collision_propagates:
  assumes "request_user env = Some usr" and "is_authenticated usr"
  shows "((spec = [] \<or> spec = HOME_WORKSHEET env) \<and>
          get_worksheet_uuid env s (Some usr) None (home_worksheet env (user_name usr)) = Inr u \<longrightarrow>
            create_on_not_found env spec e s =
              (Inl (UsageError (''Worksheet with name '' @ home_worksheet env (user_name usr) @
                 '' already exists'')), s))
       \<and> (\<not> (spec = [] \<or> spec = HOME_WORKSHEET env) \<and> is_dashboard env spec \<and>
          \<not> is_home_worksheet env spec \<and>
          get_worksheet_uuid env s (Some usr) None spec = Inr u \<longrightarrow>
            create_on_not_found env spec e s =
              (Inl (UsageError (''Worksheet with name '' @ spec @ '' already exists'')), s))"
proof -
  have a: "create_on_not_found env spec e s =
              (Inl (UsageError (''Worksheet with name '' @ home_worksheet env (user_name usr) @
                 '' already exists'')), s)"
    if "spec = [] \<or> spec = HOME_WORKSHEET env"
      and "get_worksheet_uuid env s (Some usr) None (home_worksheet env (user_name usr)) = Inr u"
    using that assms(1) new_worksheet_name_taken[OF assms that(2)]
    by (auto simp: create_on_not_found_def)
  have b: "create_on_not_found env spec e s =
              (Inl (UsageError (''Worksheet with name '' @ spec @ '' already exists'')), s)"
    if "\<not> (spec = [] \<or> spec = HOME_WORKSHEET env)" and "is_dashboard env spec"
      and "\<not> is_home_worksheet env spec"
      and "get_worksheet_uuid env s (Some usr) None spec = Inr u"
    using that assms(1) new_worksheet_name_taken[OF assms that(4)]
    by (auto simp: create_on_not_found_def)
  from a b show ?thesis by blast
qed

text \<open>The second of the two racing requests.\<close>

theorem name_collision_propagates_witness:
  "request_user (env0\<lparr>new_uuid := ''0xa''\<rparr>) = Some alice
   \<and> is_authenticated alice
   \<and> get_worksheet_uuid (env0\<lparr>new_uuid := ''0xa''\<rparr>) s_won (Some alice) None
        (home_worksheet (env0\<lparr>new_uuid := ''0xa''\<rparr>) (user_name alice)) = Inr ''0x9''
   \<and> create_on_not_found (env0\<lparr>new_uuid := ''0xa''\<rparr>) []
        (NotFoundError ''No worksheet found with name home-alice'') s_won =
       (Inl (UsageError ''Worksheet with name home-alice already exists''), s_won)"
proof -
  let ?env = "env0\<lparr>new_uuid := ''0xa''\<rparr>"
  have u: "request_user ?env = Some alice" by (simp add: env0_def)
  have a: "is_authenticated alice" by (simp add: alice_def)
  have h: "home_worksheet ?env (user_name alice) = ''home-alice''"
    by (simp add: env0_def alice_def)
  have r: "get_worksheet_uuid ?env s_won (Some alice) None
             (home_worksheet ?env (user_name alice)) = Inr ''0x9''"
    by (simp add: s_won_def get_worksheet_uuid_def after_creation_def created_worksheet_def
        model_set_group_worksheet_permission_def scenario_defs)
  from name_collision_propagates[OF u a, of "[]" s_won "''0x9''"
      "NotFoundError ''No worksheet found with name home-alice''"] u a h r
  show ?thesis by simp
qed

section \<open>C4: resolving or creating a worksheet\<close>




section \<open>C5: the permission gate\<close>

text \<open>Claim C5. On an existing worksheet, every mutating helper (\<^verbatim>\<open>update_worksheet_items\<close>,
  \<^verbatim>\<open>add_worksheet_item\<close>, \<^verbatim>\<open>update_worksheet_metadata\<close>, \<^verbatim>\<open>set_worksheet_permission\<close>,
  \<^verbatim>\<open>delete_worksheet\<close>) called by a principal whose permission level is not All raises a
  \<^verbatim>\<open>PermissionError\<close> and returns the store exactly as it was, journal included: the check
  comes before any store write. \<^verbatim>\<open>get_worksheet_info\<close> succeeds for a principal who holds
  Read only, and raises a \<^verbatim>\<open>PermissionError\<close> for one who holds no permission.\<close>

theorem mutations_require_all_permission:
  assumes "get_worksheet s u True = Inr w"
  shows "(permissionLevel s (request_user env) w \<noteq> GROUP_OBJECT_PERMISSION_ALL \<longrightarrow>
            (info_uuid (fst info) = u \<longrightarrow>
               (\<exists>m. update_worksheet_items env info new_items s = (Inl (PermissionError m), s)))
          \<and> (\<exists>m. add_worksheet_item env u it s = (Inl (PermissionError m), s))
          \<and> (\<exists>m. update_worksheet_metadata env u entries s = (Inl (PermissionError m), s))
          \<and> (\<exists>m. set_worksheet_permission env w g p s = (Inl (PermissionError m), s))
          \<and> (\<exists>m. delete_worksheet env u force s = (Inl (PermissionError m), s)))
       \<and> (permissionLevel s (request_user env) w = GROUP_OBJECT_PERMISSION_READ \<and>
            request_user env \<noteq> None \<longrightarrow>
            (\<exists>info. get_worksheet_info env s u True True False =
                      Inr (info, to_dict_items w False) \<and>
                    info_uuid info = u \<and>
                    info_permission info = Some GROUP_OBJECT_PERMISSION_READ))
       \<and> (permissionLevel s (request_user env) w = GROUP_OBJECT_PERMISSION_NONE \<longrightarrow>
            (\<exists>m. get_worksheet_info env s u fetch_items fetch_permission legacy =
                    Inl (PermissionError m)))"
proof -
  have a: "permissionLevel s (request_user env) w \<noteq> GROUP_OBJECT_PERMISSION_ALL \<Longrightarrow>
            (info_uuid (fst info) = u \<longrightarrow>
               (\<exists>m. update_worksheet_items env info new_items s = (Inl (PermissionError m), s)))
          \<and> (\<exists>m. add_worksheet_item env u it s = (Inl (PermissionError m), s))
          \<and> (\<exists>m. update_worksheet_metadata env u entries s = (Inl (PermissionError m), s))
          \<and> (\<exists>m. set_worksheet_permission env w g p s = (Inl (PermissionError m), s))
          \<and> (\<exists>m. delete_worksheet env u force s = (Inl (PermissionError m), s))"
    using assms get_worksheet_False[OF assms]
    by (simp add: update_worksheet_items_def add_worksheet_item_def update_worksheet_metadata_def
        set_worksheet_permission_def delete_worksheet_def check_worksheet_has_all_permission_def
        Let_def)
  have b: "permissionLevel s (request_user env) w = GROUP_OBJECT_PERMISSION_READ \<and>
            request_user env \<noteq> None \<Longrightarrow>
            (\<exists>info. get_worksheet_info env s u True True False =
                      Inr (info, to_dict_items w False) \<and>
                    info_uuid info = u \<and>
                    info_permission info = Some GROUP_OBJECT_PERMISSION_READ)"
    using get_worksheet_uuid[OF assms]
    by (auto simp: get_worksheet_info_plain[OF assms] to_dict_def)
  have c: "permissionLevel s (request_user env) w = GROUP_OBJECT_PERMISSION_NONE \<Longrightarrow>
            (\<exists>m. get_worksheet_info env s u fetch_items fetch_permission legacy =
                    Inl (PermissionError m))"
    using get_worksheet_info_denied[OF assms, of env] by simp
  from a b c show ?thesis by blast
qed

text \<open>The second user holds Read on the open worksheet through the public group: all five
  mutations are refused, the fetch succeeds.\<close>

theorem mutations_require_all_permission_witness:
  "get_worksheet s0 ''0x2'' True = Inr ws2
   \<and> permissionLevel s0 (request_user env_bob) ws2 = GROUP_OBJECT_PERMISSION_READ
   \<and> (\<exists>m. update_worksheet_items env_bob stale_info (Stored []) s0 = (Inl (PermissionError m), s0))
   \<and> (\<exists>m. add_worksheet_item env_bob ''0x2'' (None, None, ''hi'', TYPE_MARKUP) s0 =
            (Inl (PermissionError m), s0))
   \<and> (\<exists>m. update_worksheet_metadata env_bob ''0x2'' [Title (Some ''mine'')] s0 =
            (Inl (PermissionError m), s0))
   \<and> (\<exists>m. set_worksheet_permission env_bob ws2 ''0xf'' GROUP_OBJECT_PERMISSION_ALL s0 =
            (Inl (PermissionError m), s0))
   \<and> (\<exists>m. delete_worksheet env_bob ''0x2'' True s0 = (Inl (PermissionError m), s0))
   \<and> (\<exists>info. get_worksheet_info env_bob s0 ''0x2'' True True False =
                Inr (info, to_dict_items ws2 False) \<and>
              info_uuid info = ''0x2'' \<and>
              info_permission info = Some GROUP_OBJECT_PERMISSION_READ)"
proof -
  have g: "get_worksheet s0 ''0x2'' True = Inr ws2"
    by (simp add: get_worksheet_def s0_def ws1_def ws2_def)
  have p: "permissionLevel s0 (request_user env_bob) ws2 = GROUP_OBJECT_PERMISSION_READ"
    by (simp add: permissionLevel_def groups_of_def group_permission_def permission_max_def
        scenario_defs)
  have n: "request_user env_bob \<noteq> None" by (simp add: env_bob_def)
  have i: "info_uuid (fst stale_info) = ''0x2''"
    by (simp add: stale_info_def to_dict_def ws2_def)
  from mutations_require_all_permission[OF g, of env_bob stale_info "Stored []"
      "(None, None, ''hi'', TYPE_MARKUP)" "[Title (Some ''mine'')]" "''0xf''"
      GROUP_OBJECT_PERMISSION_ALL True] g p n i
  show ?thesis by simp
qed

section \<open>C6: deleting a worksheet\<close>

text \<open>Claim C6. \<^verbatim>\<open>delete_worksheet(uuid, force)\<close> on an existing worksheet: the caller must hold
  All permission in every case, otherwise a \<^verbatim>\<open>PermissionError\<close> is raised and the store is
  left as it was. Without \<^verbatim>\<open>force\<close>, a frozen worksheet and a worksheet with items are each
  refused with their own descriptive \<^verbatim>\<open>UsageError\<close>, the store unchanged. With \<^verbatim>\<open>force\<close> (or
  when the worksheet is neither frozen nor non-empty) the worksheet is deleted: it can no
  longer be fetched, and every other worksheet is fetched as before.\<close>

theorem delete_worksheet_contract:
  assumes "get_worksheet s u True = Inr w"
  shows "(permissionLevel s (request_user env) w \<noteq> GROUP_OBJECT_PERMISSION_ALL \<longrightarrow>
            (\<exists>m. delete_worksheet env u force s = (Inl (PermissionError m), s)))
       \<and> (permissionLevel s (request_user env) w = GROUP_OBJECT_PERMISSION_ALL \<and> \<not> force \<and>
            frozen w \<noteq> None \<longrightarrow>
            delete_worksheet env u force s =
              (Inl (UsageError (''Can't delete worksheet '' @ u @
                 '' because it is frozen (--force to override).'')), s))
       \<and> (permissionLevel s (request_user env) w = GROUP_OBJECT_PERMISSION_ALL \<and> \<not> force \<and>
            frozen w = None \<and> items w \<noteq> [] \<longrightarrow>
            delete_worksheet env u force s =
              (Inl (UsageError (''Can't delete worksheet '' @ u @
                 '' because it is not empty (--force to override).'')), s))
       \<and> (permissionLevel s (request_user env) w = GROUP_OBJECT_PERMISSION_ALL \<and>
            (force \<or> (frozen w = None \<and> items w = [])) \<longrightarrow>
            delete_worksheet env u force s = (Inr (), model_delete_worksheet u s) \<and>
            get_worksheet (model_delete_worksheet u s) u True =
              Inl (NotFoundError (''No worksheet with uuid '' @ u)) \<and>
            (\<forall>v b. v \<noteq> u \<longrightarrow>
               get_worksheet (model_delete_worksheet u s) v b = get_worksheet s v b))"
  using assms get_worksheet_uuid[OF assms]
  by (auto simp: delete_worksheet_def check_worksheet_has_all_permission_def
      get_worksheet_deleted get_worksheet_delete_other)

text \<open>The contract at the frozen, non-empty worksheet of the scenario, deleted by its owner
  without and with \<^verbatim>\<open>force\<close>.\<close>

theorem delete_worksheet_contract_witness:
  "get_worksheet s0 ''0x1'' True = Inr ws1
   \<and> permissionLevel s0 (request_user env0) ws1 = GROUP_OBJECT_PERMISSION_ALL
   \<and> frozen ws1 \<noteq> None
   \<and> delete_worksheet env0 ''0x1'' False s0 =
       (Inl (UsageError ''Can't delete worksheet 0x1 because it is frozen (--force to override).''), s0)
   \<and> delete_worksheet env0 ''0x1'' True s0 = (Inr (), model_delete_worksheet ''0x1'' s0)
   \<and> worksheets (model_delete_worksheet ''0x1'' s0) = [ws2]"
proof -
  have g: "get_worksheet s0 ''0x1'' True = Inr ws1"
    by (simp add: get_worksheet_def s0_def ws1_def)
  have p: "permissionLevel s0 (request_user env0) ws1 = GROUP_OBJECT_PERMISSION_ALL"
    by (simp add: permissionLevel_def scenario_defs)
  have f: "frozen ws1 \<noteq> None" by (simp add: ws1_def)
  have d: "worksheets (model_delete_worksheet ''0x1'' s0) = [ws2]"
    by (simp add: model_delete_worksheet_def s0_def ws1_def ws2_def)
  from delete_worksheet_contract[OF g, of env0 False] delete_worksheet_contract[OF g, of env0 True]
    g p f d show ?thesis by simp
qed

section \<open>C7: bulk creation of items\<close>

text \<open>Claim C7 says that each target worksheet of a batch receives one atomic operation
  covering all of its items. That holds for the replace mode. In the append mode the
  handler calls \<^verbatim>\<open>add_worksheet_item\<close> once per item, each call with its own checks and its
  own store append: two items posted for the open worksheet of the scenario reach the store
  as two appends.\<close>

theorem append_mode_counterexample:
  "worksheet_to_items [note_a, note_b] = [(''0x2'', [note_a, note_b])]
   \<and> fst (create_worksheet_items env0 False [note_a, note_b] s0) = Inr [note_a, note_b]
   \<and> journal (snd (create_worksheet_items env0 False [note_a, note_b] s0)) =
       [AppendItem ''0x2'' (None, None, ''a'', TYPE_MARKUP),
        AppendItem ''0x2'' (None, None, ''b'', TYPE_MARKUP)]"
  by (simp add: create_worksheet_items_def worksheet_to_items_def get_worksheet_info_def
      get_worksheet_def check_worksheet_has_read_permission_def
      check_worksheet_has_all_permission_def check_worksheet_not_frozen_def permissionLevel_def
      add_worksheet_item_def model_add_worksheet_item_def as_tuple_def note_a_def note_b_def
      scenario_defs)

text \<open>Claim C7, amended. \<^verbatim>\<open>create_worksheet_items\<close> groups the posted items by their target
  worksheet uuid, one group per uuid, each group holding the items of that uuid in the
  order of the batch. Provided the dict is walked entry by entry (each group once), a run
  that returns has returned the posted items, and: with \<^verbatim>\<open>replace\<close> the store received exactly
  one whole-list replacement per target worksheet, carrying all the items of its group,
  and afterwards each target worksheet holds exactly these items; without \<^verbatim>\<open>replace\<close> the
  store received one append per item, group after group in batch order, and afterwards
  each target worksheet holds its former items followed by the items of its group. The
  worksheets that are no target are fetched as before.\<close>

theorem create_worksheet_items_groups:
  assumes "distinct (map fst (iteritems env (worksheet_to_items new_items)))"
    and "set (iteritems env (worksheet_to_items new_items)) = set (worksheet_to_items new_items)"
    and "create_worksheet_items env replace new_items s = (Inr r, s')"
  shows "r = new_items
       \<and> distinct (map fst (worksheet_to_items new_items))
       \<and> (\<forall>u. map_of (worksheet_to_items new_items) u =
               (if u \<in> worksheet_uuid ` set new_items
                then Some (filter (\<lambda>i. worksheet_uuid i = u) new_items) else None))
       \<and> (replace \<longrightarrow>
            (\<exists>cs. journal s' = journal s @ cs \<and>
               list_all2 (\<lambda>g c. \<exists>l n. c = ReplaceItems (fst g) l n (map as_tuple (snd g)))
                 (iteritems env (worksheet_to_items new_items)) cs) \<and>
            (\<forall>u. u \<in> worksheet_uuid ` set new_items \<longrightarrow>
               (\<exists>w'. get_worksheet s' u True = Inr w' \<and>
                     items w' = map as_tuple (filter (\<lambda>i. worksheet_uuid i = u) new_items))))
       \<and> (\<not> replace \<longrightarrow>
            journal s' = journal s @
              concat (map (\<lambda>g. map (\<lambda>i. AppendItem (fst g) (as_tuple i)) (snd g))
                        (iteritems env (worksheet_to_items new_items))) \<and>
            (\<forall>u. u \<in> worksheet_uuid ` set new_items \<longrightarrow>
               (\<exists>w w'. get_worksheet s u True = Inr w \<and> get_worksheet s' u True = Inr w' \<and>
                  items w' = items w @
                    map as_tuple (filter (\<lambda>i. worksheet_uuid i = u) new_items))))
       \<and> (\<forall>v b. v \<notin> worksheet_uuid ` set new_items \<longrightarrow>
             get_worksheet s' v b = get_worksheet s v b)"
proof -
  let ?gs = "iteritems env (worksheet_to_items new_items)"
  from assms(3) have r: "r = new_items"
    and loop: "create_worksheet_items_loop env replace ?gs s = (Inr (), s')"
    by (auto simp: create_worksheet_items_def split: prod.splits sum.splits)
  note mem = group_member[OF assms(2)]
  have keys: "fst ` set ?gs = worksheet_uuid ` set new_items"
  proof (rule set_eqI)
    fix u
    have "u \<in> fst ` set ?gs \<longleftrightarrow> (\<exists>xs. (u, xs) \<in> set ?gs)" by force
    also have "\<dots> \<longleftrightarrow> u \<in> worksheet_uuid ` set new_items" by (simp add: mem)
    finally show "u \<in> fst ` set ?gs \<longleftrightarrow> u \<in> worksheet_uuid ` set new_items" .
  qed
  have R: "(\<exists>cs. journal s' = journal s @ cs \<and>
               list_all2 (\<lambda>g c. \<exists>l n. c = ReplaceItems (fst g) l n (map as_tuple (snd g)))
                 ?gs cs) \<and>
            (\<forall>u. u \<in> worksheet_uuid ` set new_items \<longrightarrow>
               (\<exists>w'. get_worksheet s' u True = Inr w' \<and>
                     items w' = map as_tuple (filter (\<lambda>i. worksheet_uuid i = u) new_items))) \<and>
            (\<forall>v b. v \<notin> worksheet_uuid ` set new_items \<longrightarrow>
               get_worksheet s' v b = get_worksheet s v b)"
    if replace
  proof -
    from loop that have "create_worksheet_items_loop env True ?gs s = (Inr (), s')" by simp
    from loop_replace[OF this assms(1)] show ?thesis
      unfolding keys by (simp add: mem)
  qed
  have A: "journal s' = journal s @
              concat (map (\<lambda>g. map (\<lambda>i. AppendItem (fst g) (as_tuple i)) (snd g)) ?gs) \<and>
            (\<forall>u. u \<in> worksheet_uuid ` set new_items \<longrightarrow>
               (\<exists>w w'. get_worksheet s u True = Inr w \<and> get_worksheet s' u True = Inr w' \<and>
                  items w' = items w @
                    map as_tuple (filter (\<lambda>i. worksheet_uuid i = u) new_items))) \<and>
            (\<forall>v b. v \<notin> worksheet_uuid ` set new_items \<longrightarrow>
               get_worksheet s' v b = get_worksheet s v b)"
    if "\<not> replace"
  proof -
    from loop that have "create_worksheet_items_loop env False ?gs s = (Inr (), s')" by simp
    from loop_append[OF this assms(1)] show ?thesis
      unfolding keys by (simp add: mem)
  qed
  from r worksheet_to_items_groups[of new_items] R A show ?thesis by (cases replace) simp_all
qed

text \<open>The two items posted in replace mode by the owner of the open worksheet.\<close>

theorem create_worksheet_items_groups_witness:
  "distinct (map fst (iteritems env0 (worksheet_to_items [note_a, note_b])))
   \<and> set (iteritems env0 (worksheet_to_items [note_a, note_b])) =
       set (worksheet_to_items [note_a, note_b])
   \<and> fst (create_worksheet_items env0 True [note_a, note_b] s0) = Inr [note_a, note_b]
   \<and> journal (snd (create_worksheet_items env0 True [note_a, note_b] s0)) =
       [ReplaceItems ''0x2'' 6 2 [(None, None, ''a'', TYPE_MARKUP),
                                  (None, None, ''b'', TYPE_MARKUP)]]
   \<and> (\<exists>w'. get_worksheet (snd (create_worksheet_items env0 True [note_a, note_b] s0))
               ''0x2'' True = Inr w' \<and>
             items w' = map as_tuple [note_a, note_b])"
proof -
  let ?r = "create_worksheet_items env0 True [note_a, note_b] s0"
  have d: "distinct (map fst (iteritems env0 (worksheet_to_items [note_a, note_b])))"
    and p: "set (iteritems env0 (worksheet_to_items [note_a, note_b])) =
            set (worksheet_to_items [note_a, note_b])"
    by (simp_all add: env0_def worksheet_to_items_def note_a_def note_b_def)
  have e: "fst ?r = Inr [note_a, note_b] \<and>
           journal (snd ?r) = [ReplaceItems ''0x2'' 6 2 [(None, None, ''a'', TYPE_MARKUP),
                                                        (None, None, ''b'', TYPE_MARKUP)]]"
    by (simp add: create_worksheet_items_def worksheet_to_items_def get_worksheet_info_def
        get_worksheet_def check_worksheet_has_read_permission_def
        check_worksheet_has_all_permission_def check_worksheet_not_frozen_def permissionLevel_def
        update_worksheet_items_def items_to_db_def model_update_worksheet_items_def
        to_dict_def to_dict_items_def item_dicts_def Let_def as_tuple_def note_a_def note_b_def
        scenario_defs)
  then have c: "?r = (Inr [note_a, note_b], snd ?r)" by (simp add: prod_eq_iff)
  have m: "''0x2'' \<in> worksheet_uuid ` set [note_a, note_b]"
    "filter (\<lambda>i. worksheet_uuid i = ''0x2'') [note_a, note_b] = [note_a, note_b]"
    by (simp_all add: note_a_def note_b_def)
  from create_worksheet_items_groups[OF d p c]
  have "\<forall>u. u \<in> worksheet_uuid ` set [note_a, note_b] \<longrightarrow>
          (\<exists>w'. get_worksheet (snd ?r) u True = Inr w' \<and>
                items w' = map as_tuple (filter (\<lambda>i. worksheet_uuid i = u) [note_a, note_b]))"
    by blast
  with m(1) have "\<exists>w'. get_worksheet (snd ?r) ''0x2'' True = Inr w' \<and>
      items w' = map as_tuple (filter (\<lambda>i. worksheet_uuid i = ''0x2'') [note_a, note_b])"
    by blast
  then have "\<exists>w'. get_worksheet (snd ?r) ''0x2'' True = Inr w' \<and>
             items w' = map as_tuple [note_a, note_b]"
    unfolding m(2) .
  with d p e show ?thesis by blast
qed

section \<open>C8: the frozen timestamp is never cleared\<close>

text \<open>Claim C8. If a worksheet is frozen, then after any sequence of
  \<^verbatim>\<open>update_worksheet_metadata\<close> calls (any callers, any target worksheets, any keys, failing
  or not) it still exists and is still frozen. The \<^verbatim>\<open>'frozen'\<close> key leaves the metadata dict
  untouched when the worksheet is already frozen or when its value is falsy, and sets the
  timestamp to the current time when the value is truthy and the worksheet is not frozen.\<close>

theorem frozen_never_cleared:
  assumes "get_worksheet s v True = Inr w" and "frozen w \<noteq> None"
  shows "(\<exists>w'. get_worksheet (update_worksheet_metadata_calls calls s) v True = Inr w' \<and>
               frozen w' \<noteq> None)
       \<and> metadata_entry env s w (Frozen x) m = Inr m
       \<and> (\<forall>w0. \<not> truthy x \<longrightarrow> metadata_entry env s w0 (Frozen x) m = Inr m)
       \<and> (\<forall>w0. truthy x \<and> frozen w0 = None \<longrightarrow>
             metadata_entry env s w0 (Frozen x) m = Inr (m\<lparr>md_frozen := Some (now env)\<rparr>))"
  using frozen_kept_by_calls[OF assms] assms(2) by auto

text \<open>Three calls on the frozen worksheet of the scenario: a falsy \<^verbatim>\<open>'frozen'\<close> with a new
  title, a \<^verbatim>\<open>'freeze'\<close> by a user without permission, a \<^verbatim>\<open>'freeze'\<close> by the owner.\<close>

theorem frozen_never_cleared_witness:
  "get_worksheet s0 ''0x1'' True = Inr ws1
   \<and> frozen ws1 \<noteq> None
   \<and> (\<exists>w'. get_worksheet
              (update_worksheet_metadata_calls
                 [(env0, ''0x1'', [Frozen PyNone, Title (Some ''t'')]),
                  (env_bob, ''0x1'', [Freeze PyNone]),
                  (env0, ''0x1'', [Freeze (PyBool False)])] s0) ''0x1'' True = Inr w' \<and>
            frozen w' \<noteq> None)
   \<and> metadata_entry env0 s0 ws1 (Frozen (PyBool True)) empty_metadata = Inr empty_metadata"
proof -
  have g: "get_worksheet s0 ''0x1'' True = Inr ws1"
    by (simp add: get_worksheet_def s0_def ws1_def)
  have f: "frozen ws1 \<noteq> None" by (simp add: ws1_def)
  from frozen_never_cleared[OF g f, where env = env0 and x = "PyBool True"
      and m = empty_metadata and calls = "[(env0, ''0x1'', [Frozen PyNone, Title (Some ''t'')]),
                  (env_bob, ''0x1'', [Freeze PyNone]),
                  (env0, ''0x1'', [Freeze (PyBool False)])]"] g f
  show ?thesis by blast
qed

section \<open>C9: what a fetched worksheet includes\<close>




section \<open>C10: a new worksheet is publicly readable\<close>

text \<open>Claim C10. Whenever \<^verbatim>\<open>new_worksheet\<close> returns a uuid, or leaves a store whose worksheets
  differ from the ones it started with, the worksheet it created is in the store under the
  uuid and the name it was given, the public group holds Read permission on it, and every
  principal, the anonymous one included, passes the read check on it. The journal shows the
  grant right after the creation, before anything else is written.\<close>

theorem new_worksheet_public_read:
  assumes "new_worksheet env nm s = (r, s')"
    and "(\<exists>u. r = Inr u) \<or> worksheets s' \<noteq> worksheets s"
  shows "group_permission s' (public_group_uuid s') (new_uuid env) = GROUP_OBJECT_PERMISSION_READ
       \<and> (\<exists>w. w \<in> set (worksheets s') \<and> uuid w = new_uuid env \<and> name w = nm)
       \<and> (\<forall>v w. w \<in> set (worksheets s') \<and> uuid w = new_uuid env \<longrightarrow>
              check_worksheet_has_read_permission s' v w = Inr ())
       \<and> (\<exists>rest. journal s' = journal s @
              [NewWorksheet (new_uuid env) nm,
               SetGroupPermission (public_group_uuid s) (new_uuid env)
                 GROUP_OBJECT_PERMISSION_READ] @ rest)
       \<and> (\<forall>u. r = Inr u \<longrightarrow> u = new_uuid env)"
proof -
  from new_worksheet_created[OF assms] obtain usr where
    fr: "same_frame (after_creation env nm usr s) s'" and
    ru: "\<forall>u. r = Inr u \<longrightarrow> u = new_uuid env" by blast
  have gp: "group_permission s' (public_group_uuid s') (new_uuid env) =
              GROUP_OBJECT_PERMISSION_READ"
    using fr
    by (simp add: same_frame_def after_creation_def model_set_group_worksheet_permission_def
        group_permission_def)
  have "(new_uuid env, nm, user_id usr) \<in>
          set (map (\<lambda>w. (uuid w, name w, owner_id w)) (worksheets s'))"
    using fr
    by (simp add: same_frame_def after_creation_def model_set_group_worksheet_permission_def
        created_worksheet_def)
  then have ex: "\<exists>w. w \<in> set (worksheets s') \<and> uuid w = new_uuid env \<and> name w = nm"
    by auto
  have rd: "check_worksheet_has_read_permission s' v w = Inr ()"
    if "uuid w = new_uuid env" for v w
    using public_read_readable[of s' w v] gp that by simp
  have jr: "\<exists>rest. journal s' = journal s @
              [NewWorksheet (new_uuid env) nm,
               SetGroupPermission (public_group_uuid s) (new_uuid env)
                 GROUP_OBJECT_PERMISSION_READ] @ rest"
    using fr
    by (auto simp: same_frame_def after_creation_def model_set_group_worksheet_permission_def)
  from gp ex rd jr ru show ?thesis by blast
qed

text \<open>The first user creates a worksheet in the store of the scenario.\<close>

theorem new_worksheet_public_read_witness:
  "fst (new_worksheet env0 ''scratch'' s0) = Inr ''0x9''
   \<and> group_permission (snd (new_worksheet env0 ''scratch'' s0))
        (public_group_uuid (snd (new_worksheet env0 ''scratch'' s0))) (new_uuid env0) =
        GROUP_OBJECT_PERMISSION_READ
   \<and> created_worksheet env0 ''scratch'' alice \<in>
        set (worksheets (snd (new_worksheet env0 ''scratch'' s0)))
   \<and> check_worksheet_has_read_permission (snd (new_worksheet env0 ''scratch'' s0)) None
        (created_worksheet env0 ''scratch'' alice) = Inr ()
   \<and> check_worksheet_has_read_permission (snd (new_worksheet env0 ''scratch'' s0)) (Some bob)
        (created_worksheet env0 ''scratch'' alice) = Inr ()"
proof -
  have e: "new_worksheet env0 ''scratch'' s0 =
             (Inr ''0x9'', after_creation env0 ''scratch'' alice s0)"
    by (simp add: new_worksheet_def ensure_unused_worksheet_name_def get_worksheet_uuid_def
        model_new_worksheet_def set_worksheet_permission_def
        check_worksheet_has_all_permission_def permissionLevel_def after_creation_def
        created_worksheet_def scenario_defs)
  have m: "created_worksheet env0 ''scratch'' alice \<in>
             set (worksheets (after_creation env0 ''scratch'' alice s0))"
    by (simp add: after_creation_def model_set_group_worksheet_permission_def)
  have u: "uuid (created_worksheet env0 ''scratch'' alice) = new_uuid env0"
    by (simp add: created_worksheet_def)
  from new_worksheet_public_read[OF e] e m u show ?thesis by simp
qed

end
